theory Spec2Isabelle
  imports Complex_Main "HOL-Library.AList"
begin

section \<open>Trace entities of promptflow-devkit: \<open>promptflow/_sdk/entities/_trace.py\<close>\<close>

text \<open>
  A shallow embedding of the classes \<open>Event\<close>, \<open>Span\<close> and \<open>LineRun\<close>.
  Python dictionaries are association lists, in the order of their keys, read with
  \<open>map_of\<close> (the first binding of a key is its value); \<open>pop\<close> is \<open>AList.delete\<close>.
  Every exception the source can raise is a value of \<open>error\<close>; a function that can raise
  returns \<open>error + 'a\<close>, with \<open>Inl\<close> for the exception.
\<close>

subsection \<open>Values, exceptions and the standard library\<close>

text \<open>
  A \<open>datetime\<close> is a count of microseconds, the resolution of Python's
  \<open>datetime.datetime\<close>. The result of \<open>json.loads\<close> is a \<open>json\<close> document; numbers that
  are not integers are left out of the type.
\<close>

type_synonym datetime = int

datatype json =
  JNull
| JBool bool
| JNum int
| JStr string
| JArr "json list"
| JObj "(string \<times> json) list"

datatype error =
  KeyError string
| ValueError
| JSONDecodeError
| LineRunNotFoundError
| EventNotFoundError

text \<open>\<open>d[k]\<close> on a dictionary: the value, or \<open>KeyError\<close>.\<close>

definition getitem :: "(string \<times> 'v) list \<Rightarrow> string \<Rightarrow> error + 'v" where
  "getitem d k = (case map_of d k of None \<Rightarrow> Inl (KeyError k) | Some v \<Rightarrow> Inr v)"

text \<open>\<open>d.get(k, default)\<close>.\<close>

definition get_default :: "(string \<times> 'v) list \<Rightarrow> string \<Rightarrow> 'v \<Rightarrow> 'v" where
  "get_default d k dflt = (case map_of d k of None \<Rightarrow> dflt | Some v \<Rightarrow> v)"

subsection \<open>Events and spans\<close>

text \<open>
  An event is the dictionary \<open>{name, timestamp, attributes}\<close> that
  \<open>Span._from_protobuf_events\<close> builds; its three keys are always there, so it is a
  record. Attribute values are the strings of the annotation \<open>Dict[str, str]\<close>.
\<close>

record event =
  name :: string
  timestamp :: string
  attributes :: "(string \<times> string) list"

text \<open>
  The fields of \<open>Span.__init__\<close>. The field \<open>context\<close> of the source is \<open>span_context\<close>
  here, and \<open>_external_event_ids\<close> is \<open>external_event_ids\<close>. A link is its context and its
  attributes. The resource maps a key (\<open>attributes\<close>) to a dictionary.
\<close>

record span =
  trace_id :: string
  span_id :: string
  name :: string
  span_context :: "(string \<times> string) list"
  kind :: string
  parent_id :: "string option"
  start_time :: datetime
  end_time :: datetime
  status :: "(string \<times> string) list"
  attributes :: "(string \<times> string) list"
  links :: "((string \<times> string) list \<times> (string \<times> string) list) list"
  events :: "event list"
  resource :: "(string \<times> (string \<times> string) list) list"
  external_event_ids :: "string list"

subsection \<open>Line runs\<close>

text \<open>
  \<open>LineRun._parse_common_args\<close> returns the fields of \<open>common_args\<close>; the dataclass
  \<open>LineRun\<close> extends them (\<open>**common_args\<close>). \<open>evaluations\<close> is never stored
  (\<open>_to_orm_object\<close> leaves it out) and is not a field here; the field \<open>experiment\<close> is
  \<open>experiment_name\<close>. \<open>duration\<close> is
  \<open>timedelta.total_seconds()\<close>, a number of seconds.
\<close>

record common_args =
  line_run_id :: string
  trace_id :: string
  start_time :: datetime
  collection :: string
  parent_id :: "string option"
  run :: "string option"
  line_number :: "string option"
  experiment_name :: "string option"
  session_id :: "string option"

record line_run = common_args +
  root_span_id :: "string option"
  inputs :: "json option"
  outputs :: "json option"
  end_time :: "datetime option"
  status :: string
  duration :: "real option"
  name :: "string option"
  kind :: "string option"
  cumulative_token_count :: "(string \<times> int) list option"

subsection \<open>Constants of \<open>promptflow._constants\<close> and \<open>promptflow._sdk._constants\<close>\<close>

text \<open>
  Modelled from the spec: the two constant modules are not among the sources. Each
  constant the source imports is a string named as the source names it; the proofs use
  nothing of the values but that different attribute keys are different strings.
\<close>

definition LINE_RUN_ID :: string where
  "LINE_RUN_ID = ''line_run_id''"

definition REFERENCED_LINE_RUN_ID :: string where
  "REFERENCED_LINE_RUN_ID = ''referenced.line_run_id''"

definition REFERENCED_BATCH_RUN_ID :: string where
  "REFERENCED_BATCH_RUN_ID = ''referenced.batch_run_id''"

definition BATCH_RUN_ID :: string where
  "BATCH_RUN_ID = ''batch_run_id''"

definition LINE_NUMBER :: string where
  "LINE_NUMBER = ''line_number''"

definition SESSION_ID :: string where
  "SESSION_ID = ''session_id''"

definition SPAN_TYPE :: string where
  "SPAN_TYPE = ''span_type''"

definition COMPLETION_TOKEN_COUNT :: string where
  "COMPLETION_TOKEN_COUNT = ''__computed__.cumulative_token_count.completion''"

definition PROMPT_TOKEN_COUNT :: string where
  "PROMPT_TOKEN_COUNT = ''__computed__.cumulative_token_count.prompt''"

definition TOTAL_TOKEN_COUNT :: string where
  "TOTAL_TOKEN_COUNT = ''__computed__.cumulative_token_count.total''"

definition CumulativeTokenCount_COMPLETION :: string where
  "CumulativeTokenCount_COMPLETION = ''completion''"

definition CumulativeTokenCount_PROMPT :: string where
  "CumulativeTokenCount_PROMPT = ''prompt''"

definition CumulativeTokenCount_TOTAL :: string where
  "CumulativeTokenCount_TOTAL = ''total''"

definition SPAN_EVENTS_ATTRIBUTES_EVENT_ID :: string where
  "SPAN_EVENTS_ATTRIBUTES_EVENT_ID = ''event.id''"

definition SPAN_EVENTS_ATTRIBUTE_PAYLOAD :: string where
  "SPAN_EVENTS_ATTRIBUTE_PAYLOAD = ''payload''"

definition SPAN_EVENTS_NAME_PF_INPUTS :: string where
  "SPAN_EVENTS_NAME_PF_INPUTS = ''promptflow.function.inputs''"

definition SPAN_EVENTS_NAME_PF_OUTPUT :: string where
  "SPAN_EVENTS_NAME_PF_OUTPUT = ''promptflow.function.output''"

definition STATUS_CODE :: string where
  "STATUS_CODE = ''status_code''"

definition RESOURCE_ATTRIBUTES :: string where
  "RESOURCE_ATTRIBUTES = ''attributes''"

definition RESOURCE_COLLECTION :: string where
  "RESOURCE_COLLECTION = ''collection''"

definition RESOURCE_EXPERIMENT_NAME :: string where
  "RESOURCE_EXPERIMENT_NAME = ''experiment.name''"

definition TRACE_DEFAULT_COLLECTION :: string where
  "TRACE_DEFAULT_COLLECTION = ''default''"

definition RUNNING_LINE_RUN_STATUS :: string where
  "RUNNING_LINE_RUN_STATUS = ''Running''"

subsection \<open>The LineRun table (\<open>promptflow._sdk._orm.trace.LineRun\<close>)\<close>

text \<open>
  The ORM class is not among the sources; its four operations are modelled from the
  contract of the LineRun store in section 6 of the spec. The table is the list of its
  rows, so that two rows of one id can be told from one; a row has the fields of
  \<open>LineRun._to_orm_object\<close>, which copies every field of the line run.
\<close>

text \<open>
  Modelled from the spec: \<open>ORMLineRun.get\<close> is missing. \<open>get(line_run_id)\<close> returns the
  line run of that id and fails with NotFound if it is absent.
\<close>

definition ORMLineRun_get :: "line_run list \<Rightarrow> string \<Rightarrow> error + line_run" where
  "ORMLineRun_get tbl lrid =
     (case find (\<lambda>r. line_run_id r = lrid) tbl of
        None \<Rightarrow> Inl LineRunNotFoundError
      | Some r \<Rightarrow> Inr r)"

text \<open>
  Modelled from the spec: \<open>ORMLineRun.persist\<close> is missing. \<open>create(line_run)\<close> adds the
  line run to the store.
\<close>

definition ORMLineRun_persist :: "line_run list \<Rightarrow> line_run \<Rightarrow> line_run list" where
  "ORMLineRun_persist tbl r = tbl @ [r]"

text \<open>
  Modelled from the spec: \<open>ORMLineRun._update\<close> is missing. \<open>update(line_run)\<close> overwrites
  the stored line run of that id with the given values.
\<close>

definition ORMLineRun_update :: "line_run list \<Rightarrow> line_run \<Rightarrow> line_run list" where
  "ORMLineRun_update tbl r = map (\<lambda>x. if line_run_id x = line_run_id r then r else x) tbl"

text \<open>
  Modelled from the spec: \<open>ORMLineRun._get_with_run_and_line_number\<close> is missing.
  \<open>find_by_run_and_line_number(run, line_number)\<close> returns the line run created for that
  run and line number, or none.
\<close>

definition ORMLineRun_get_with_run_and_line_number ::
  "line_run list \<Rightarrow> string \<Rightarrow> string \<Rightarrow> line_run option" where
  "ORMLineRun_get_with_run_and_line_number tbl r lnum =
     find (\<lambda>x. run x = Some r \<and> line_number x = Some lnum) tbl"

subsection \<open>Identity of a line run: \<open>_determine_line_run_id\<close>, \<open>_determine_parent_id\<close>\<close>

text \<open>
  The source tests \<open>key in span.attributes\<close> and then reads \<open>span.attributes[key]\<close>; the
  two together are one case distinction on the lookup.
\<close>

definition determine_line_run_id :: "span \<Rightarrow> string" where
  "determine_line_run_id s =
     (case map_of (span.attributes s) LINE_RUN_ID of
        Some v \<Rightarrow> v
      | None \<Rightarrow> span.trace_id s)"

text \<open>
  In the batch branch the keyword arguments are evaluated in order: the run is read
  (its key is there), then \<open>span.attributes[LINE_NUMBER]\<close>, which raises \<open>KeyError\<close> when
  the span has no line number.
\<close>

definition determine_parent_id :: "line_run list \<Rightarrow> span \<Rightarrow> error + string option" where
  "determine_parent_id tbl s =
     (case map_of (span.attributes s) REFERENCED_LINE_RUN_ID of
        Some v \<Rightarrow> Inr (Some v)
      | None \<Rightarrow>
          (case map_of (span.attributes s) REFERENCED_BATCH_RUN_ID of
             Some r \<Rightarrow>
               (case getitem (span.attributes s) LINE_NUMBER of
                  Inl e \<Rightarrow> Inl e
                | Inr lnum \<Rightarrow>
                    (case ORMLineRun_get_with_run_and_line_number tbl r lnum of
                       Some lr \<Rightarrow> Inr (Some (line_run_id lr))
                     | None \<Rightarrow> Inr None))
           | None \<Rightarrow> Inr None))"

subsection \<open>Functions of the standard library\<close>

text \<open>
  The functions of Python's standard library that the source calls are parameters of
  the model: \<open>json.loads\<close> on an event payload (\<open>None\<close> when it raises), \<open>json.dumps\<close> and
  \<open>json.loads\<close> on an event dictionary, \<open>int\<close> on a string (\<open>None\<close> when it raises
  \<open>ValueError\<close>) and \<open>datetime.isoformat\<close>. \<open>uuid.uuid4\<close> is a parameter of
  \<open>persist_events\<close>.
\<close>

record pylib =
  json_loads :: "string \<Rightarrow> json option"
  json_dumps :: "event \<Rightarrow> string"
  json_loads_event :: "string \<Rightarrow> event option"
  int_of_str :: "string \<Rightarrow> int option"
  isoformat :: "datetime \<Rightarrow> string"

text \<open>\<open>int(span.attributes.get(key, 0))\<close>.\<close>

definition int_attribute :: "pylib \<Rightarrow> span \<Rightarrow> string \<Rightarrow> error + int" where
  "int_attribute lib s k =
     (case map_of (span.attributes s) k of
        None \<Rightarrow> Inr 0
      | Some v \<Rightarrow> (case int_of_str lib v of None \<Rightarrow> Inl ValueError | Some n \<Rightarrow> Inr n))"

subsection \<open>Reconstruction of a line run from one span\<close>

definition parse_common_args :: "line_run list \<Rightarrow> span \<Rightarrow> error + common_args" where
  "parse_common_args tbl s =
     (let lrid = determine_line_run_id s;
          resource_attributes = get_default (span.resource s) RESOURCE_ATTRIBUTES [];
          coll = get_default resource_attributes RESOURCE_COLLECTION TRACE_DEFAULT_COLLECTION;
          expe = map_of resource_attributes RESOURCE_EXPERIMENT_NAME;
          r = map_of (span.attributes s) BATCH_RUN_ID;
          lnum = map_of (span.attributes s) LINE_NUMBER;
          sess = map_of (span.attributes s) SESSION_ID
      in case determine_parent_id tbl s of
           Inl e \<Rightarrow> Inl e
         | Inr pid \<Rightarrow>
             Inr \<lparr>line_run_id = lrid, trace_id = span.trace_id s,
                  start_time = span.start_time s, collection = coll, parent_id = pid,
                  run = r, line_number = lnum, experiment_name = expe, session_id = sess\<rparr>)"

text \<open>The constructor call \<open>LineRun(..., **common_args)\<close>.\<close>

definition LineRun ::
  "common_args \<Rightarrow> string option \<Rightarrow> json option \<Rightarrow> json option \<Rightarrow> datetime option \<Rightarrow>
   string \<Rightarrow> real option \<Rightarrow> string option \<Rightarrow> string option \<Rightarrow>
   (string \<times> int) list option \<Rightarrow> line_run" where
  "LineRun ca rsid inp outp etime st dur nm kd ctc =
     \<lparr>line_run_id = line_run_id ca, trace_id = common_args.trace_id ca,
      start_time = common_args.start_time ca, collection = collection ca,
      parent_id = common_args.parent_id ca, run = run ca, line_number = line_number ca,
      experiment_name = experiment_name ca, session_id = session_id ca,
      root_span_id = rsid, inputs = inp, outputs = outp, end_time = etime, status = st,
      duration = dur, name = nm, kind = kd, cumulative_token_count = ctc\<rparr>"

definition from_non_root_span :: "line_run list \<Rightarrow> span \<Rightarrow> error + line_run" where
  "from_non_root_span tbl s =
     (case parse_common_args tbl s of
        Inl e \<Rightarrow> Inl e
      | Inr ca \<Rightarrow>
          Inr (LineRun ca None None None None RUNNING_LINE_RUN_STATUS None None None None))"

text \<open>
  The loop of \<open>_get_inputs_from_span\<close> and \<open>_get_outputs_from_span\<close>: the first event of
  the given name decides. Its payload is read (\<open>KeyError\<close> when the attribute is not
  there) and decoded; the JSON document \<open>null\<close> is Python's \<open>None\<close>.
\<close>

fun first_payload :: "pylib \<Rightarrow> string \<Rightarrow> event list \<Rightarrow> error + json option" where
  "first_payload lib nm [] = Inr None"
| "first_payload lib nm (e # es) =
     (if event.name e = nm then
        (case getitem (event.attributes e) SPAN_EVENTS_ATTRIBUTE_PAYLOAD of
           Inl err \<Rightarrow> Inl err
         | Inr p \<Rightarrow>
             (case json_loads lib p of
                None \<Rightarrow> Inl JSONDecodeError
              | Some j \<Rightarrow> Inr (if j = JNull then None else Some j)))
      else first_payload lib nm es)"

definition get_inputs_from_span :: "pylib \<Rightarrow> span \<Rightarrow> error + json option" where
  "get_inputs_from_span lib s = first_payload lib SPAN_EVENTS_NAME_PF_INPUTS (span.events s)"

definition get_outputs_from_span :: "pylib \<Rightarrow> span \<Rightarrow> error + json option" where
  "get_outputs_from_span lib s = first_payload lib SPAN_EVENTS_NAME_PF_OUTPUT (span.events s)"

text \<open>\<open>(span.end_time - span.start_time).total_seconds()\<close>.\<close>

definition total_seconds :: "datetime \<Rightarrow> datetime \<Rightarrow> real" where
  "total_seconds etime stime = real_of_int (etime - stime) / 1000000"

text \<open>
  \<open>_from_root_span\<close>, in the order in which the source evaluates: the common
  arguments, the three token counts, then the keyword arguments \<open>inputs\<close>, \<open>outputs\<close> and
  \<open>status\<close> of the constructor call.
\<close>

definition from_root_span :: "pylib \<Rightarrow> line_run list \<Rightarrow> span \<Rightarrow> error + line_run" where
  "from_root_span lib tbl s =
     (case parse_common_args tbl s of
        Inl e \<Rightarrow> Inl e
      | Inr ca \<Rightarrow>
     (case int_attribute lib s COMPLETION_TOKEN_COUNT of
        Inl e \<Rightarrow> Inl e
      | Inr completion_token_count \<Rightarrow>
     (case int_attribute lib s PROMPT_TOKEN_COUNT of
        Inl e \<Rightarrow> Inl e
      | Inr prompt_token_count \<Rightarrow>
     (case int_attribute lib s TOTAL_TOKEN_COUNT of
        Inl e \<Rightarrow> Inl e
      | Inr total_token_count \<Rightarrow>
     (let ctc =
        (if total_token_count > 0 then
           Some [(CumulativeTokenCount_COMPLETION, completion_token_count),
                 (CumulativeTokenCount_PROMPT, prompt_token_count),
                 (CumulativeTokenCount_TOTAL, total_token_count)]
         else None)
      in
     (case get_inputs_from_span lib s of
        Inl e \<Rightarrow> Inl e
      | Inr inp \<Rightarrow>
     (case get_outputs_from_span lib s of
        Inl e \<Rightarrow> Inl e
      | Inr outp \<Rightarrow>
     (case getitem (span.status s) STATUS_CODE of
        Inl e \<Rightarrow> Inl e
      | Inr st \<Rightarrow>
          Inr (LineRun ca (Some (span.span_id s)) inp outp (Some (span.end_time s)) st
                 (Some (total_seconds (span.end_time s) (span.start_time s)))
                 (Some (span.name s))
                 (Some (get_default (span.attributes s) SPAN_TYPE (span.kind s)))
                 ctc)))))))))"

subsection \<open>Create or update: \<open>_try_create\<close>, \<open>_try_update\<close>, \<open>_persist_line_run\<close>\<close>

text \<open>
  \<open>except LineRunNotFoundError\<close> catches that exception of the lookup and no other.
\<close>

definition try_create :: "line_run list \<Rightarrow> line_run \<Rightarrow> error + line_run list" where
  "try_create tbl lr =
     (case ORMLineRun_get tbl (line_run_id lr) of
        Inr found \<Rightarrow> Inr tbl
      | Inl LineRunNotFoundError \<Rightarrow> Inr (ORMLineRun_persist tbl lr)
      | Inl e \<Rightarrow> Inl e)"

definition try_update :: "line_run list \<Rightarrow> line_run \<Rightarrow> error + line_run list" where
  "try_update tbl lr =
     (case ORMLineRun_get tbl (line_run_id lr) of
        Inr found \<Rightarrow> Inr (ORMLineRun_update tbl lr)
      | Inl LineRunNotFoundError \<Rightarrow> Inr (ORMLineRun_persist tbl lr)
      | Inl e \<Rightarrow> Inl e)"

definition persist_line_run :: "pylib \<Rightarrow> line_run list \<Rightarrow> span \<Rightarrow> error + line_run list" where
  "persist_line_run lib tbl s =
     (if span.parent_id s = None then
        (case from_root_span lib tbl s of
           Inl e \<Rightarrow> Inl e
         | Inr lr \<Rightarrow> try_update tbl lr)
      else
        (case from_non_root_span tbl s of
           Inl e \<Rightarrow> Inl e
         | Inr lr \<Rightarrow> try_create tbl lr))"

text \<open>
  The line run that \<open>_persist_line_run\<close> builds for a span before it looks the table
  up: the one of \<open>_from_root_span\<close> for a span without a parent, the placeholder of
  \<open>_from_non_root_span\<close> otherwise.
\<close>

definition built_line_run :: "pylib \<Rightarrow> line_run list \<Rightarrow> span \<Rightarrow> error + line_run" where
  "built_line_run lib tbl s =
     (if span.parent_id s = None then from_root_span lib tbl s else from_non_root_span tbl s)"

text \<open>
  Spans processed one at a time, each on the table the one before left; an exception
  of one span ends the processing.
\<close>

fun persist_line_runs :: "pylib \<Rightarrow> line_run list \<Rightarrow> span list \<Rightarrow> error + line_run list" where
  "persist_line_runs lib tbl [] = Inr tbl"
| "persist_line_runs lib tbl (s # ss) =
     (case persist_line_run lib tbl s of
        Inl e \<Rightarrow> Inl e
      | Inr tbl' \<Rightarrow> persist_line_runs lib tbl' ss)"

text \<open>The rows of a table that have a given line run id.\<close>

definition rows_of :: "line_run list \<Rightarrow> string \<Rightarrow> line_run list" where
  "rows_of tbl lrid = filter (\<lambda>r. line_run_id r = lrid) tbl"

subsection \<open>The Event table (\<open>promptflow._sdk._orm.trace.Event\<close>) and \<open>Event.get\<close>\<close>

text \<open>
  The ORM class is not among the sources; it is modelled from the contract of the Event
  store in section 6 of the spec. The table is the list of its rows.
\<close>

text \<open>
  Modelled from the spec: the class \<open>ORMEvent\<close> is missing. Its fields are the keyword
  arguments of the constructor call in \<open>_persist_events\<close>.
\<close>

record orm_event =
  event_id :: string
  trace_id :: string
  span_id :: string
  data :: string

text \<open>
  Modelled from the spec: \<open>ORMEvent.persist\<close> is missing.
  \<open>persist(event_id, trace_id, span_id, payload)\<close> adds the row to the store.
\<close>

definition ORMEvent_persist :: "orm_event list \<Rightarrow> orm_event \<Rightarrow> orm_event list" where
  "ORMEvent_persist tbl row = tbl @ [row]"

text \<open>
  Modelled from the spec: \<open>ORMEvent.get\<close> is missing. \<open>get(event_id)\<close> returns the row of
  that id, the first one in the table; on an unknown id it fails with NotFound.
\<close>

definition ORMEvent_get :: "orm_event list \<Rightarrow> string \<Rightarrow> error + orm_event" where
  "ORMEvent_get tbl eid =
     (case find (\<lambda>r. event_id r = eid) tbl of
        None \<Rightarrow> Inl EventNotFoundError
      | Some r \<Rightarrow> Inr r)"

text \<open>\<open>Event.get\<close>: the row is looked up and its data decoded.\<close>

definition Event_get :: "pylib \<Rightarrow> orm_event list \<Rightarrow> string \<Rightarrow> error + event" where
  "Event_get lib tbl eid =
     (case ORMEvent_get tbl eid of
        Inl e \<Rightarrow> Inl e
      | Inr orm \<Rightarrow>
          (case json_loads_event lib (data orm) of
             None \<Rightarrow> Inl JSONDecodeError
           | Some ev \<Rightarrow> Inr ev))"

subsection \<open>Externalization: \<open>_persist_events\<close> and \<open>_load_events\<close>\<close>

text \<open>
  The loop of \<open>_persist_events\<close> from index \<open>i\<close> on: \<open>uuid4 i\<close> is the id that
  \<open>str(uuid.uuid4())\<close> draws in iteration \<open>i\<close>. The event is serialized and stored before
  its attributes are replaced by the reference.
\<close>

fun persist_events_from ::
  "pylib \<Rightarrow> (nat \<Rightarrow> string) \<Rightarrow> string \<Rightarrow> string \<Rightarrow> nat \<Rightarrow> event list \<Rightarrow> orm_event list \<Rightarrow>
   orm_event list \<times> event list" where
  "persist_events_from lib uuid4 tid sid i [] tbl = (tbl, [])"
| "persist_events_from lib uuid4 tid sid i (e # es) tbl =
     (let eid = uuid4 i;
          tbl' = ORMEvent_persist tbl
                   \<lparr>event_id = eid, trace_id = tid, span_id = sid, data = json_dumps lib e\<rparr>;
          e' = e\<lparr>event.attributes := [(SPAN_EVENTS_ATTRIBUTES_EVENT_ID, eid)]\<rparr>;
          (tbl'', es') = persist_events_from lib uuid4 tid sid (Suc i) es tbl'
      in (tbl'', e' # es'))"

definition persist_events ::
  "pylib \<Rightarrow> (nat \<Rightarrow> string) \<Rightarrow> orm_event list \<Rightarrow> span \<Rightarrow> orm_event list \<times> span" where
  "persist_events lib uuid4 tbl s =
     (let (tbl', es') =
        persist_events_from lib uuid4 (span.trace_id s) (span.span_id s) 0 (span.events s) tbl
      in (tbl', s\<lparr>span.events := es'\<rparr>))"

text \<open>
  The loop of \<open>_load_events\<close>: the ids read, in order, and the events they resolve to.
  An exception leaves the loop; the span it leaves half updated is not returned.
\<close>

fun load_events_from ::
  "pylib \<Rightarrow> orm_event list \<Rightarrow> event list \<Rightarrow> error + (string list \<times> event list)" where
  "load_events_from lib tbl [] = Inr ([], [])"
| "load_events_from lib tbl (e # es) =
     (case getitem (event.attributes e) SPAN_EVENTS_ATTRIBUTES_EVENT_ID of
        Inl err \<Rightarrow> Inl err
      | Inr eid \<Rightarrow>
          (case Event_get lib tbl eid of
             Inl err \<Rightarrow> Inl err
           | Inr ev \<Rightarrow>
               (case load_events_from lib tbl es of
                  Inl err \<Rightarrow> Inl err
                | Inr (ids, evs) \<Rightarrow> Inr (eid # ids, ev # evs))))"

definition load_events :: "pylib \<Rightarrow> orm_event list \<Rightarrow> span \<Rightarrow> error + span" where
  "load_events lib tbl s =
     (case load_events_from lib tbl (span.events s) of
        Inl err \<Rightarrow> Inl err
      | Inr (ids, evs) \<Rightarrow>
          Inr (s\<lparr>span.events := evs, external_event_ids := external_event_ids s @ ids\<rparr>))"

subsection \<open>Serialization: \<open>Span._to_rest_object\<close>\<close>

text \<open>The mapping that \<open>_to_rest_object\<close> returns, key by key.\<close>

record rest_span =
  name :: string
  span_context :: "(string \<times> string) list"
  kind :: string
  parent_id :: "string option"
  start_time :: string
  end_time :: string
  status :: "(string \<times> string) list"
  attributes :: "(string \<times> string) list"
  links :: "((string \<times> string) list \<times> (string \<times> string) list) list"
  events :: "event list"
  resource :: "(string \<times> (string \<times> string) list) list"
  external_event_data_uris :: "string list"

text \<open>
  The loop over \<open>rest_events\<close>: \<open>pop\<close> takes the reference id out of the attributes of
  each event of the copy and raises \<open>KeyError\<close> when an event has none.
\<close>

fun pop_event_ids :: "event list \<Rightarrow> error + (event list \<times> string list)" where
  "pop_event_ids [] = Inr ([], [])"
| "pop_event_ids (e # es) =
     (case getitem (event.attributes e) SPAN_EVENTS_ATTRIBUTES_EVENT_ID of
        Inl err \<Rightarrow> Inl err
      | Inr eid \<Rightarrow>
          (case pop_event_ids es of
             Inl err \<Rightarrow> Inl err
           | Inr (es', ids) \<Rightarrow>
               Inr (e\<lparr>event.attributes :=
                        AList.delete SPAN_EVENTS_ATTRIBUTES_EVENT_ID (event.attributes e)\<rparr> # es',
                    eid # ids)))"

definition to_rest_object :: "pylib \<Rightarrow> span \<Rightarrow> error + rest_span" where
  "to_rest_object lib s =
     (case (if length (external_event_ids s) = 0 then pop_event_ids (span.events s)
            else Inr (span.events s, external_event_ids s)) of
        Inl err \<Rightarrow> Inl err
      | Inr (rest_events, rest_external_event_data_uris) \<Rightarrow>
          Inr \<lparr>name = span.name s, span_context = span.span_context s, kind = span.kind s,
               parent_id = span.parent_id s,
               start_time = isoformat lib (span.start_time s),
               end_time = isoformat lib (span.end_time s),
               status = span.status s, attributes = span.attributes s,
               links = span.links s, events = rest_events, resource = span.resource s,
               external_event_data_uris = rest_external_event_data_uris\<rparr>)"

subsection \<open>Example spans\<close>

text \<open>
  A trace \<open>abc123\<close> of two spans: the root span \<open>s1\<close>, with token counts and the two
  reserved events, and its child \<open>s2\<close>. \<open>example_lib\<close> is a standard library that decodes
  the payloads and numbers of the examples; it serializes an event by joining its
  fields and decodes by looking the text up among the example events and the two
  events that hold the references \<open>e0\<close> and \<open>e1\<close>. \<open>example_uuid4\<close> and
  \<open>example_uuid4_again\<close> are the ids drawn by a first and a second externalization.
\<close>

definition example_inputs_event :: event where
  "example_inputs_event =
     \<lparr>event.name = SPAN_EVENTS_NAME_PF_INPUTS, timestamp = ''2024-01-01T00:00:00'',
      attributes = [(SPAN_EVENTS_ATTRIBUTE_PAYLOAD, ''[1]'')]\<rparr>"

definition example_output_event :: event where
  "example_output_event =
     \<lparr>event.name = SPAN_EVENTS_NAME_PF_OUTPUT, timestamp = ''2024-01-01T00:00:01'',
      attributes = [(SPAN_EVENTS_ATTRIBUTE_PAYLOAD, ''[2]'')]\<rparr>"

definition example_inputs_reference :: event where
  "example_inputs_reference =
     example_inputs_event\<lparr>event.attributes := [(SPAN_EVENTS_ATTRIBUTES_EVENT_ID, ''e0'')]\<rparr>"

definition example_output_reference :: event where
  "example_output_reference =
     example_output_event\<lparr>event.attributes := [(SPAN_EVENTS_ATTRIBUTES_EVENT_ID, ''e1'')]\<rparr>"

definition example_encode :: "event \<Rightarrow> string" where
  "example_encode e =
     event.name e @ ''|'' @ event.timestamp e @ ''|'' @
     concat (map (\<lambda>(k, v). k @ ''='' @ v @ '';'') (event.attributes e))"

definition example_lib :: pylib where
  "example_lib =
     \<lparr>json_loads = (\<lambda>p. if p = ''[1]'' then Some (JArr [JNum 1])
                        else if p = ''[2]'' then Some (JArr [JNum 2]) else None),
      json_dumps = example_encode,
      json_loads_event =
        (\<lambda>d. find (\<lambda>e. example_encode e = d)
               [example_inputs_event, example_output_event,
                example_inputs_reference, example_output_reference]),
      int_of_str = (\<lambda>v. if v = ''0'' then Some 0 else if v = ''3'' then Some 3
                        else if v = ''5'' then Some 5 else if v = ''8'' then Some 8 else None),
      isoformat = (\<lambda>t. if t = 0 then ''1970-01-01T00:00:00'' else ''1970-01-01T00:00:01.500000'')\<rparr>"

definition example_root :: span where
  "example_root =
     \<lparr>span.trace_id = ''abc123'', span_id = ''s1'', name = ''flow'', span_context = [],
      kind = ''1'', parent_id = None, start_time = 0, end_time = 1500000,
      status = [(STATUS_CODE, ''Ok'')],
      attributes = [(COMPLETION_TOKEN_COUNT, ''3''), (PROMPT_TOKEN_COUNT, ''5''),
                    (TOTAL_TOKEN_COUNT, ''8'')],
      links = [], events = [example_inputs_event, example_output_event],
      resource = [], external_event_ids = []\<rparr>"

definition example_child :: span where
  "example_child =
     \<lparr>span.trace_id = ''abc123'', span_id = ''s2'', name = ''llm'', span_context = [],
      kind = ''1'', parent_id = Some ''s1'', start_time = 200000, end_time = 900000,
      status = [(STATUS_CODE, ''Ok'')], attributes = [], links = [], events = [],
      resource = [], external_event_ids = []\<rparr>"

definition example_root_line_run :: line_run where
  "example_root_line_run =
     \<lparr>line_run_id = ''abc123'', trace_id = ''abc123'', start_time = 0,
      collection = ''default'', parent_id = None, run = None, line_number = None,
      experiment_name = None, session_id = None, root_span_id = Some ''s1'',
      inputs = Some (JArr [JNum 1]), outputs = Some (JArr [JNum 2]),
      end_time = Some 1500000, status = ''Ok'', duration = Some (3 / 2),
      name = Some ''flow'', kind = Some ''1'',
      cumulative_token_count = Some [(''completion'', 3), (''prompt'', 5), (''total'', 8)]\<rparr>"

definition example_placeholder :: line_run where
  "example_placeholder =
     \<lparr>line_run_id = ''abc123'', trace_id = ''abc123'', start_time = 200000,
      collection = ''default'', parent_id = None, run = None, line_number = None,
      experiment_name = None, session_id = None, root_span_id = None,
      inputs = None, outputs = None, end_time = None, status = ''Running'', duration = None,
      name = None, kind = None, cumulative_token_count = None\<rparr>"

definition example_uuid4 :: "nat \<Rightarrow> string" where
  "example_uuid4 i = (if i = 0 then ''e0'' else ''e1'')"

definition example_uuid4_again :: "nat \<Rightarrow> string" where
  "example_uuid4_again i = (if i = 0 then ''e2'' else ''e3'')"

definition example_reference_span :: span where
  "example_reference_span =
     example_root\<lparr>span.events := [example_inputs_reference, example_output_reference]\<rparr>"

definition example_event_table :: "orm_event list" where
  "example_event_table =
     [\<lparr>event_id = ''e0'', trace_id = ''abc123'', span_id = ''s1'',
       data = example_encode example_inputs_event\<rparr>,
      \<lparr>event_id = ''e1'', trace_id = ''abc123'', span_id = ''s1'',
       data = example_encode example_output_event\<rparr>]"

definition example_resolved_span :: span where
  "example_resolved_span = example_root\<lparr>external_event_ids := [''e0'', ''e1'']\<rparr>"

section \<open>Properties\<close>

subsection \<open>Evaluation of the examples\<close>

lemmas constant_defs =
  LINE_RUN_ID_def REFERENCED_LINE_RUN_ID_def REFERENCED_BATCH_RUN_ID_def BATCH_RUN_ID_def
  LINE_NUMBER_def SESSION_ID_def SPAN_TYPE_def COMPLETION_TOKEN_COUNT_def
  PROMPT_TOKEN_COUNT_def TOTAL_TOKEN_COUNT_def CumulativeTokenCount_COMPLETION_def
  CumulativeTokenCount_PROMPT_def CumulativeTokenCount_TOTAL_def
  SPAN_EVENTS_ATTRIBUTES_EVENT_ID_def SPAN_EVENTS_ATTRIBUTE_PAYLOAD_def
  SPAN_EVENTS_NAME_PF_INPUTS_def SPAN_EVENTS_NAME_PF_OUTPUT_def STATUS_CODE_def
  RESOURCE_ATTRIBUTES_def RESOURCE_COLLECTION_def RESOURCE_EXPERIMENT_NAME_def
  TRACE_DEFAULT_COLLECTION_def RUNNING_LINE_RUN_STATUS_def

lemmas reconstruct_defs =
  determine_line_run_id_def determine_parent_id_def parse_common_args_def LineRun_def
  from_non_root_span_def from_root_span_def get_inputs_from_span_def
  get_outputs_from_span_def int_attribute_def getitem_def get_default_def total_seconds_def

lemma example_root_line_run_eq:
  "from_root_span example_lib tbl example_root = Inr example_root_line_run"
  by (simp add: reconstruct_defs constant_defs example_root_def example_lib_def
      example_inputs_event_def example_output_event_def example_root_line_run_def)

lemma example_placeholder_eq:
  "from_non_root_span tbl example_child = Inr example_placeholder"
  by (simp add: reconstruct_defs constant_defs example_child_def example_placeholder_def)

lemma example_parent_ids:
  "span.parent_id example_root = None" "span.parent_id example_child = Some ''s1''"
  by (simp_all add: example_root_def example_child_def)

subsection \<open>The lookup exception stays inside\<close>

lemma first_payload_not_NotFound:
  "first_payload lib nm es \<noteq> Inl LineRunNotFoundError"
  by (induction es) (auto simp: getitem_def split: option.splits)

lemma determine_parent_id_not_NotFound:
  "determine_parent_id tbl s \<noteq> Inl LineRunNotFoundError"
  by (simp add: determine_parent_id_def getitem_def split: option.splits)

lemma parse_common_args_not_NotFound:
  "parse_common_args tbl s \<noteq> Inl LineRunNotFoundError"
  using determine_parent_id_not_NotFound [of tbl s]
  by (auto simp: parse_common_args_def Let_def split: sum.splits)

lemma int_attribute_not_NotFound:
  "int_attribute lib s k \<noteq> Inl LineRunNotFoundError"
  by (simp add: int_attribute_def split: option.splits)

lemma from_non_root_span_not_NotFound:
  "from_non_root_span tbl s \<noteq> Inl LineRunNotFoundError"
  using parse_common_args_not_NotFound [of tbl s]
  by (auto simp: from_non_root_span_def split: sum.splits)

lemma from_root_span_not_NotFound:
  "from_root_span lib tbl s \<noteq> Inl LineRunNotFoundError"
  using parse_common_args_not_NotFound [of tbl s]
    int_attribute_not_NotFound [of lib s]
    first_payload_not_NotFound [of lib _ "span.events s"]
  by (auto simp: from_root_span_def get_inputs_from_span_def get_outputs_from_span_def
      getitem_def Let_def split: sum.splits option.splits)

subsection \<open>Rows of the LineRun table\<close>

lemma ORMLineRun_get_rows_of:
  "ORMLineRun_get tbl i = (case rows_of tbl i of [] \<Rightarrow> Inl LineRunNotFoundError | r # rs \<Rightarrow> Inr r)"
  by (induction tbl) (auto simp: ORMLineRun_get_def rows_of_def)

lemma try_create_eq:
  "try_create tbl lr = Inr (if rows_of tbl (line_run_id lr) = [] then ORMLineRun_persist tbl lr else tbl)"
  by (simp add: try_create_def ORMLineRun_get_rows_of split: list.splits)

lemma try_update_eq:
  "try_update tbl lr = Inr (if rows_of tbl (line_run_id lr) = [] then ORMLineRun_persist tbl lr
       else ORMLineRun_update tbl lr)"
  by (simp add: try_update_def ORMLineRun_get_rows_of split: list.splits)

lemma parse_common_args_line_run_id:
  "parse_common_args tbl s = Inr ca \<Longrightarrow> line_run_id ca = determine_line_run_id s"
  by (auto simp: parse_common_args_def Let_def split: sum.splits)

lemma from_non_root_span_line_run_id:
  "from_non_root_span tbl s = Inr lr \<Longrightarrow> line_run_id lr = determine_line_run_id s"
  by (auto simp: from_non_root_span_def LineRun_def parse_common_args_line_run_id split: sum.splits)

lemma from_root_span_line_run_id:
  "from_root_span lib tbl s = Inr lr \<Longrightarrow> line_run_id lr = determine_line_run_id s"
  by (auto simp: from_root_span_def LineRun_def Let_def parse_common_args_line_run_id
      split: sum.splits)

lemma rows_of_append: "rows_of (tbl @ [r]) i = rows_of tbl i @ (if line_run_id r = i then [r] else [])"
  by (simp add: rows_of_def)

lemma rows_of_update:
  "rows_of (ORMLineRun_update tbl lr) i =
     (if i = line_run_id lr then replicate (length (rows_of tbl i)) lr else rows_of tbl i)"
  by (induction tbl) (auto simp: rows_of_def ORMLineRun_update_def)

lemma persist_line_run_rows:
  assumes "persist_line_run lib tbl s = Inr tbl'"
  shows "length (rows_of tbl' i) =
           (if i = determine_line_run_id s \<and> rows_of tbl i = [] then 1 else length (rows_of tbl i))"
proof (cases "span.parent_id s = None")
  case True
  with assms obtain lr where lr: "from_root_span lib tbl s = Inr lr"
    and t: "try_update tbl lr = Inr tbl'"
    by (auto simp: persist_line_run_def split: sum.splits)
  from lr have "line_run_id lr = determine_line_run_id s" by (rule from_root_span_line_run_id)
  with t show ?thesis
    by (auto simp: try_update_eq ORMLineRun_persist_def rows_of_append rows_of_update
        split: if_splits)
next
  case False
  with assms obtain lr where lr: "from_non_root_span tbl s = Inr lr"
    and t: "try_create tbl lr = Inr tbl'"
    by (auto simp: persist_line_run_def split: sum.splits)
  from lr have "line_run_id lr = determine_line_run_id s" by (rule from_non_root_span_line_run_id)
  with t show ?thesis
    by (auto simp: try_create_eq ORMLineRun_persist_def rows_of_append split: if_splits)
qed

lemma persist_line_runs_rows:
  assumes "persist_line_runs lib tbl ss = Inr tbl'"
  shows "length (rows_of tbl' i) =
           (if i \<in> determine_line_run_id ` set ss \<and> rows_of tbl i = [] then 1
            else length (rows_of tbl i))"
  using assms
proof (induction ss arbitrary: tbl)
  case Nil
  then show ?case by simp
next
  case (Cons s ss)
  from Cons.prems obtain tbl1 where s1: "persist_line_run lib tbl s = Inr tbl1"
    and s2: "persist_line_runs lib tbl1 ss = Inr tbl'"
    by (auto split: sum.splits)
  note a = persist_line_run_rows [OF s1, of i]
  note b = Cons.IH [OF s2]
  show ?case
  proof (cases "rows_of tbl i = []")
    case True
    with a b show ?thesis by (auto split: if_splits)
  next
    case False
    with a b show ?thesis by (auto split: if_splits)
  qed
qed

subsection \<open>Identity of a line run\<close>

text \<open>
  C6. The line run id of a span is its explicit line-run-id attribute when the span has
  one, whatever its trace id, and its trace id otherwise.
\<close>

theorem determine_line_run_id_attribute_or_trace:
  "(\<forall>v. map_of (span.attributes s) LINE_RUN_ID = Some v \<longrightarrow> determine_line_run_id s = v) \<and>
   (map_of (span.attributes s) LINE_RUN_ID = None \<longrightarrow> determine_line_run_id s = span.trace_id s)"
  by (simp add: determine_line_run_id_def)

theorem determine_line_run_id_attribute_or_trace_witness:
  "determine_line_run_id (example_child\<lparr>span.attributes := [(LINE_RUN_ID, ''xyz'')]\<rparr>) = ''xyz'' \<and>
   determine_line_run_id example_child = ''abc123''"
proof -
  let ?t = "example_child\<lparr>span.attributes := [(LINE_RUN_ID, ''xyz'')]\<rparr>"
  have a: "map_of (span.attributes ?t) LINE_RUN_ID = Some ''xyz''"
    by simp
  have b: "map_of (span.attributes example_child) LINE_RUN_ID = None"
    by (simp add: example_child_def)
  from determine_line_run_id_attribute_or_trace [of ?t] a
  have 1: "determine_line_run_id ?t = ''xyz''"
    by blast
  from determine_line_run_id_attribute_or_trace [of example_child] b
  have 2: "determine_line_run_id example_child = span.trace_id example_child"
    by blast
  from 1 2 show ?thesis by (simp add: example_child_def)
qed

text \<open>
  C7, as the code has it. The parent line run id is the referenced-line-run-id
  attribute when the span has one. Otherwise, for a span with a referenced-batch-run-id
  attribute and a line-number attribute, it is the id of the line run that the table
  finds for that run and line number, and none when the table finds no such line run.
  A span with neither a referenced-line-run-id nor a referenced-batch-run-id attribute
  has no parent.
\<close>

theorem determine_parent_id_resolution:
  "(\<forall>v. map_of (span.attributes s) REFERENCED_LINE_RUN_ID = Some v \<longrightarrow>
        determine_parent_id tbl s = Inr (Some v)) \<and>
   (\<forall>r lnum. map_of (span.attributes s) REFERENCED_LINE_RUN_ID = None \<and>
        map_of (span.attributes s) REFERENCED_BATCH_RUN_ID = Some r \<and>
        map_of (span.attributes s) LINE_NUMBER = Some lnum \<longrightarrow>
        determine_parent_id tbl s =
          Inr (map_option line_run_id
                 (find (\<lambda>x. run x = Some r \<and> line_number x = Some lnum) tbl))) \<and>
   (map_of (span.attributes s) REFERENCED_LINE_RUN_ID = None \<and>
    map_of (span.attributes s) REFERENCED_BATCH_RUN_ID = None \<longrightarrow>
        determine_parent_id tbl s = Inr None)"
  by (auto simp: determine_parent_id_def getitem_def
      ORMLineRun_get_with_run_and_line_number_def split: option.splits)

theorem determine_parent_id_resolution_witness:
  "determine_parent_id [] (example_child\<lparr>span.attributes := [(REFERENCED_LINE_RUN_ID, ''lr1'')]\<rparr>)
     = Inr (Some ''lr1'') \<and>
   determine_parent_id [example_placeholder\<lparr>line_run_id := ''lr9'', run := Some ''run1'', line_number := Some ''2''\<rparr>]
     (example_child\<lparr>span.attributes := [(REFERENCED_BATCH_RUN_ID, ''run1''), (LINE_NUMBER, ''2'')]\<rparr>)
     = Inr (Some ''lr9'') \<and>
   determine_parent_id []
     (example_child\<lparr>span.attributes := [(REFERENCED_BATCH_RUN_ID, ''run1''), (LINE_NUMBER, ''2'')]\<rparr>)
     = Inr None \<and>
   determine_parent_id [] example_child = Inr None"
proof -
  let ?a = "example_child\<lparr>span.attributes := [(REFERENCED_LINE_RUN_ID, ''lr1'')]\<rparr>"
  let ?b = "example_child\<lparr>span.attributes := [(REFERENCED_BATCH_RUN_ID, ''run1''), (LINE_NUMBER, ''2'')]\<rparr>"
  let ?tbl = "[example_placeholder\<lparr>line_run_id := ''lr9'', run := Some ''run1'', line_number := Some ''2''\<rparr>]"
  have a: "map_of (span.attributes ?a) REFERENCED_LINE_RUN_ID = Some ''lr1''"
    by simp
  have b: "map_of (span.attributes ?b) REFERENCED_LINE_RUN_ID = None \<and>
           map_of (span.attributes ?b) REFERENCED_BATCH_RUN_ID = Some ''run1'' \<and>
           map_of (span.attributes ?b) LINE_NUMBER = Some ''2''"
    by (simp add: constant_defs)
  have c: "map_of (span.attributes example_child) REFERENCED_LINE_RUN_ID = None \<and>
           map_of (span.attributes example_child) REFERENCED_BATCH_RUN_ID = None"
    by (simp add: example_child_def)
  note first = determine_parent_id_resolution [THEN conjunct1, rule_format]
  note batch = determine_parent_id_resolution [THEN conjunct2, THEN conjunct1, rule_format]
  note neither = determine_parent_id_resolution [THEN conjunct2, THEN conjunct2, rule_format]
  from first [OF a] have 1: "determine_parent_id [] ?a = Inr (Some ''lr1'')" .
  from batch [OF b, of ?tbl] have 2: "determine_parent_id ?tbl ?b = Inr (Some ''lr9'')"
    by simp
  from batch [OF b, of "[]"] have 3: "determine_parent_id [] ?b = Inr None"
    by simp
  from neither [OF c] have 4: "determine_parent_id [] example_child = Inr None" .
  from 1 2 3 4 show ?thesis by blast
qed

text \<open>
  A span with a referenced-batch-run-id attribute alone gets no parent id at all, although
  the table has no line run for its run: the resolution raises.
\<close>

theorem determine_parent_id_batch_only_counterexample:
  "determine_parent_id []
     (example_child\<lparr>span.attributes := [(REFERENCED_BATCH_RUN_ID, ''run1'')]\<rparr>) \<noteq> Inr None"
  by (simp add: determine_parent_id_def getitem_def constant_defs)

text \<open>
  C10. For a span with a referenced-batch-run-id attribute and no line-number
  attribute, parent resolution never answers "no parent": when the span has no
  referenced-line-run-id attribute either, reading the line number raises \<open>KeyError\<close>.
\<close>

theorem determine_parent_id_missing_line_number:
  assumes "map_of (span.attributes s) REFERENCED_BATCH_RUN_ID = Some r"
    and "map_of (span.attributes s) LINE_NUMBER = None"
  shows "determine_parent_id tbl s \<noteq> Inr None \<and>
         (map_of (span.attributes s) REFERENCED_LINE_RUN_ID = None \<longrightarrow>
            determine_parent_id tbl s = Inl (KeyError LINE_NUMBER))"
  using assms by (simp add: determine_parent_id_def getitem_def split: option.splits)

theorem determine_parent_id_missing_line_number_witness:
  "map_of (span.attributes (example_child\<lparr>span.attributes := [(REFERENCED_BATCH_RUN_ID, ''run1'')]\<rparr>))
     REFERENCED_BATCH_RUN_ID = Some ''run1'' \<and>
   map_of (span.attributes (example_child\<lparr>span.attributes := [(REFERENCED_BATCH_RUN_ID, ''run1'')]\<rparr>))
     LINE_NUMBER = None \<and>
   determine_parent_id [] (example_child\<lparr>span.attributes := [(REFERENCED_BATCH_RUN_ID, ''run1'')]\<rparr>)
     = Inl (KeyError LINE_NUMBER)"
proof -
  let ?s = "example_child\<lparr>span.attributes := [(REFERENCED_BATCH_RUN_ID, ''run1'')]\<rparr>"
  have a: "map_of (span.attributes ?s) REFERENCED_BATCH_RUN_ID = Some ''run1''"
    by simp
  have b: "map_of (span.attributes ?s) LINE_NUMBER = None"
    by (simp add: constant_defs)
  have c: "map_of (span.attributes ?s) REFERENCED_LINE_RUN_ID = None"
    by (simp add: constant_defs)
  from determine_parent_id_missing_line_number [OF a b, of "[]"] c
  have "determine_parent_id [] ?s = Inl (KeyError LINE_NUMBER)" by blast
  with a b show ?thesis by blast
qed

subsection \<open>Reconstruction and upsert of line runs\<close>

text \<open>
  C8. When \<open>_from_root_span\<close> returns a line run, each of the three token counts is
  the integer of its span attribute, or 0 when the span has no such attribute; the
  cumulative token count is there exactly when the total is positive, and then it is
  the completion, prompt and total counts.
\<close>

theorem from_root_span_cumulative_token_count:
  assumes "from_root_span lib tbl s = Inr lr"
  shows "\<exists>c p t.
           (case map_of (span.attributes s) COMPLETION_TOKEN_COUNT of
              None \<Rightarrow> c = 0 | Some v \<Rightarrow> int_of_str lib v = Some c) \<and>
           (case map_of (span.attributes s) PROMPT_TOKEN_COUNT of
              None \<Rightarrow> p = 0 | Some v \<Rightarrow> int_of_str lib v = Some p) \<and>
           (case map_of (span.attributes s) TOTAL_TOKEN_COUNT of
              None \<Rightarrow> t = 0 | Some v \<Rightarrow> int_of_str lib v = Some t) \<and>
           (cumulative_token_count lr \<noteq> None) = (0 < t) \<and>
           cumulative_token_count lr =
             (if 0 < t then
                Some [(CumulativeTokenCount_COMPLETION, c), (CumulativeTokenCount_PROMPT, p),
                      (CumulativeTokenCount_TOTAL, t)]
              else None)"
proof -
  from assms obtain c p t where
    c: "int_attribute lib s COMPLETION_TOKEN_COUNT = Inr c" and
    p: "int_attribute lib s PROMPT_TOKEN_COUNT = Inr p" and
    t: "int_attribute lib s TOTAL_TOKEN_COUNT = Inr t" and
    ctc: "cumulative_token_count lr =
            (if 0 < t then
               Some [(CumulativeTokenCount_COMPLETION, c), (CumulativeTokenCount_PROMPT, p),
                     (CumulativeTokenCount_TOTAL, t)]
             else None)"
    by (auto simp: from_root_span_def LineRun_def Let_def split: sum.splits)
  have attr: "\<And>k n. int_attribute lib s k = Inr n \<Longrightarrow>
      (case map_of (span.attributes s) k of None \<Rightarrow> n = 0 | Some v \<Rightarrow> int_of_str lib v = Some n)"
    by (auto simp: int_attribute_def split: option.splits)
  from attr [OF c] attr [OF p] attr [OF t] ctc show ?thesis
    by (intro exI [of _ c] exI [of _ p] exI [of _ t]) simp
qed

theorem from_root_span_cumulative_token_count_witness:
  "from_root_span example_lib [] example_root = Inr example_root_line_run \<and>
   cumulative_token_count example_root_line_run =
     Some [(CumulativeTokenCount_COMPLETION, 3), (CumulativeTokenCount_PROMPT, 5),
           (CumulativeTokenCount_TOTAL, 8)] \<and>
   (\<exists>lr. from_root_span example_lib []
            (example_root\<lparr>span.attributes := [(TOTAL_TOKEN_COUNT, ''0'')]\<rparr>) = Inr lr \<and>
         cumulative_token_count lr = None) \<and>
   (\<exists>lr. from_root_span example_lib [] (example_root\<lparr>span.attributes := []\<rparr>) = Inr lr \<and>
         cumulative_token_count lr = None)"
proof -
  have a: "from_root_span example_lib [] example_root = Inr example_root_line_run"
    by (rule example_root_line_run_eq)
  from from_root_span_cumulative_token_count [OF a] obtain c p t where
    "int_of_str example_lib ''3'' = Some c" "int_of_str example_lib ''5'' = Some p"
    "int_of_str example_lib ''8'' = Some t"
    and ctc: "cumulative_token_count example_root_line_run =
      (if 0 < t then
         Some [(CumulativeTokenCount_COMPLETION, c), (CumulativeTokenCount_PROMPT, p),
               (CumulativeTokenCount_TOTAL, t)]
       else None)"
    by (auto simp: example_root_def constant_defs)
  then have "c = 3" "p = 5" "t = 8"
    by (simp_all add: example_lib_def)
  with ctc have 1: "cumulative_token_count example_root_line_run =
     Some [(CumulativeTokenCount_COMPLETION, 3), (CumulativeTokenCount_PROMPT, 5),
           (CumulativeTokenCount_TOTAL, 8)]"
    by simp
  let ?z = "example_root\<lparr>span.attributes := [(TOTAL_TOKEN_COUNT, ''0'')]\<rparr>"
  obtain lrz where z: "from_root_span example_lib [] ?z = Inr lrz"
    by (simp add: reconstruct_defs constant_defs example_root_def example_lib_def
        example_inputs_event_def example_output_event_def)
  from from_root_span_cumulative_token_count [OF z] obtain tz where
    "int_of_str example_lib ''0'' = Some tz"
    and "cumulative_token_count lrz \<noteq> None \<longleftrightarrow> 0 < tz"
    by (auto simp: constant_defs)
  then have 2: "cumulative_token_count lrz = None"
    by (simp add: example_lib_def)
  let ?e = "example_root\<lparr>span.attributes := []\<rparr>"
  obtain lre where e: "from_root_span example_lib [] ?e = Inr lre"
    by (simp add: reconstruct_defs constant_defs example_root_def example_lib_def
        example_inputs_event_def example_output_event_def)
  from from_root_span_cumulative_token_count [OF e]
  have 3: "cumulative_token_count lre = None"
    by auto
  from a 1 z 2 e 3 show ?thesis by blast
qed

text \<open>
  C3. \<open>_persist_line_run\<close> never raises the \<open>LineRunNotFoundError\<close> of its lookup. For
  a root span it builds the line run of \<open>_from_root_span\<close>, overwrites with it every
  row of that line run id when the table has one, and adds it as a new row when the
  table has none. For a span with a parent it builds the placeholder of
  \<open>_from_non_root_span\<close>, adds it when the table has no row of that line run id, and
  leaves the table as it is otherwise.
\<close>

theorem persist_line_run_update_else_create:
  "persist_line_run lib tbl s \<noteq> Inl LineRunNotFoundError \<and>
   (span.parent_id s = None \<longrightarrow>
      persist_line_run lib tbl s =
        (case from_root_span lib tbl s of
           Inl e \<Rightarrow> Inl e
         | Inr lr \<Rightarrow>
             Inr (if rows_of tbl (line_run_id lr) = [] then tbl @ [lr]
                  else map (\<lambda>x. if line_run_id x = line_run_id lr then lr else x) tbl))) \<and>
   (span.parent_id s \<noteq> None \<longrightarrow>
      persist_line_run lib tbl s =
        (case from_non_root_span tbl s of
           Inl e \<Rightarrow> Inl e
         | Inr lr \<Rightarrow> Inr (if rows_of tbl (line_run_id lr) = [] then tbl @ [lr] else tbl)))"
  using from_root_span_not_NotFound [of lib tbl s] from_non_root_span_not_NotFound [of tbl s]
  by (auto simp: persist_line_run_def try_create_eq try_update_eq ORMLineRun_persist_def
      ORMLineRun_update_def split: sum.splits)

theorem persist_line_run_update_else_create_witness:
  "persist_line_run example_lib [] example_root = Inr [example_root_line_run] \<and>
   persist_line_run example_lib [example_placeholder] example_root = Inr [example_root_line_run] \<and>
   persist_line_run example_lib [] example_child = Inr [example_placeholder] \<and>
   persist_line_run example_lib [example_root_line_run] example_child = Inr [example_root_line_run]"
proof -
  note root = persist_line_run_update_else_create
    [THEN conjunct2, THEN conjunct1, rule_format, OF example_parent_ids(1)]
  have "span.parent_id example_child \<noteq> None"
    by (simp add: example_parent_ids)
  note child = persist_line_run_update_else_create
    [THEN conjunct2, THEN conjunct2, rule_format, OF this]
  have ids: "line_run_id example_root_line_run = ''abc123''"
    "line_run_id example_placeholder = ''abc123''"
    by (simp_all add: example_root_line_run_def example_placeholder_def)
  from root [of example_lib "[]"]
  have 1: "persist_line_run example_lib [] example_root = Inr [example_root_line_run]"
    by (simp add: example_root_line_run_eq rows_of_def)
  from root [of example_lib "[example_placeholder]"]
  have 2: "persist_line_run example_lib [example_placeholder] example_root =
             Inr [example_root_line_run]"
    by (simp add: example_root_line_run_eq rows_of_def ids)
  from child [of example_lib "[]"]
  have 3: "persist_line_run example_lib [] example_child = Inr [example_placeholder]"
    by (simp add: example_placeholder_eq rows_of_def)
  from child [of example_lib "[example_root_line_run]"]
  have 4: "persist_line_run example_lib [example_root_line_run] example_child =
             Inr [example_root_line_run]"
    by (simp add: example_placeholder_eq rows_of_def ids)
  from 1 2 3 4 show ?thesis by blast
qed

text \<open>
  Whether a line run is built for a span does not depend on the table, and
  \<open>_persist_line_run\<close> returns exactly when the line run is built: the lookup and the
  write that follows it do not raise.
\<close>

lemma determine_parent_id_returns:
  "(\<exists>p. determine_parent_id t s = Inr p) = (\<exists>p. determine_parent_id t' s = Inr p)"
  by (auto simp: determine_parent_id_def getitem_def split: option.splits)

lemma parse_common_args_returns:
  "(\<exists>ca. parse_common_args t s = Inr ca) = (\<exists>ca. parse_common_args t' s = Inr ca)"
  using determine_parent_id_returns [of t s t']
  by (auto simp: parse_common_args_def Let_def split: sum.splits)

lemma from_non_root_span_returns:
  "(\<exists>lr. from_non_root_span t s = Inr lr) = (\<exists>lr. from_non_root_span t' s = Inr lr)"
  using parse_common_args_returns [of t s t']
  by (auto simp: from_non_root_span_def split: sum.splits)

lemma from_root_span_returns:
  "(\<exists>lr. from_root_span lib t s = Inr lr) = (\<exists>lr. from_root_span lib t' s = Inr lr)"
proof -
  have "\<exists>lr. from_root_span lib b s = Inr lr" if "from_root_span lib a s = Inr lr" for a b lr
  proof -
    from that obtain ca where "parse_common_args a s = Inr ca"
      by (auto simp: from_root_span_def split: sum.splits)
    with parse_common_args_returns [of a s b] obtain cb where "parse_common_args b s = Inr cb"
      by blast
    with that show ?thesis
      by (auto simp: from_root_span_def Let_def split: sum.splits)
  qed
  then show ?thesis by blast
qed

lemma built_line_run_returns:
  "(\<exists>lr. built_line_run lib t s = Inr lr) = (\<exists>lr. built_line_run lib t' s = Inr lr)"
  using from_root_span_returns [of lib t s t'] from_non_root_span_returns [of t s t']
  by (simp add: built_line_run_def)

lemma persist_line_run_returns:
  "(\<exists>tbl'. persist_line_run lib tbl s = Inr tbl') = (\<exists>lr. built_line_run lib tbl s = Inr lr)"
  by (auto simp: persist_line_run_def built_line_run_def try_create_eq try_update_eq
      split: sum.splits)

lemma persist_line_runs_returns:
  "(\<exists>tbl'. persist_line_runs lib tbl ss = Inr tbl') =
     (\<forall>s \<in> set ss. \<exists>lr. built_line_run lib tbl s = Inr lr)"
proof (induction ss arbitrary: tbl)
  case Nil
  then show ?case by simp
next
  case (Cons s ss)
  show ?case
  proof (cases "persist_line_run lib tbl s")
    case (Inl e)
    with persist_line_run_returns [of lib tbl s] show ?thesis
      by auto
  next
    case (Inr tbl1)
    with persist_line_run_returns [of lib tbl s]
    have here: "\<exists>lr. built_line_run lib tbl s = Inr lr"
      by auto
    have "(\<forall>x \<in> set ss. \<exists>lr. built_line_run lib tbl1 x = Inr lr) =
          (\<forall>x \<in> set ss. \<exists>lr. built_line_run lib tbl x = Inr lr)"
      using built_line_run_returns [of lib tbl1 _ tbl] by simp
    with Cons.IH [of tbl1] Inr here show ?thesis
      by simp
  qed
qed

text \<open>
  C1. Spans are processed one at a time, in any order, from a table with at most one
  row of the line run id of one of them. The processing returns exactly when a line run
  can be built for each span, and the table it returns has exactly one row of that line
  run id, whether the root span came first, last or more than once.
\<close>

theorem persist_line_runs_one_row:
  assumes "length (rows_of tbl (determine_line_run_id s)) \<le> 1"
    and "s \<in> set ss"
  shows "((\<exists>tbl'. persist_line_runs lib tbl ss = Inr tbl') =
            (\<forall>x \<in> set ss. \<exists>lr. built_line_run lib tbl x = Inr lr)) \<and>
         (\<forall>tbl'. persist_line_runs lib tbl ss = Inr tbl' \<longrightarrow>
            length (rows_of tbl' (determine_line_run_id s)) = 1)"
proof (intro conjI allI impI)
  show "(\<exists>tbl'. persist_line_runs lib tbl ss = Inr tbl') =
      (\<forall>x \<in> set ss. \<exists>lr. built_line_run lib tbl x = Inr lr)"
    by (rule persist_line_runs_returns)
next
  fix tbl'
  assume run: "persist_line_runs lib tbl ss = Inr tbl'"
  from persist_line_runs_rows [OF run, of "determine_line_run_id s"] assms
  show "length (rows_of tbl' (determine_line_run_id s)) = 1"
    by (cases "rows_of tbl (determine_line_run_id s)") (auto split: if_splits)
qed

lemma example_run:
  "persist_line_runs example_lib [] [example_child, example_root, example_child, example_root] =
     Inr [example_root_line_run]"
  by (simp add: persist_line_run_def example_root_line_run_eq example_placeholder_eq
      try_create_eq try_update_eq rows_of_def ORMLineRun_persist_def ORMLineRun_update_def
      example_parent_ids example_placeholder_def example_root_line_run_def)

lemma example_built:
  "built_line_run example_lib tbl example_root = Inr example_root_line_run"
  "built_line_run example_lib tbl example_child = Inr example_placeholder"
  by (simp_all add: built_line_run_def example_parent_ids example_root_line_run_eq
      example_placeholder_eq)

lemma example_root_first:
  "persist_line_runs example_lib [] [example_root, example_child, example_root] =
     Inr [example_root_line_run]"
  by (simp add: persist_line_run_def example_root_line_run_eq example_placeholder_eq
      try_create_eq try_update_eq rows_of_def ORMLineRun_persist_def ORMLineRun_update_def
      example_parent_ids example_placeholder_def example_root_line_run_def)

lemma example_root_id: "determine_line_run_id example_root = ''abc123''"
  by (simp add: determine_line_run_id_def example_root_def constant_defs)

theorem persist_line_runs_one_row_witness:
  "built_line_run example_lib [] example_root = Inr example_root_line_run \<and>
   built_line_run example_lib [] example_child = Inr example_placeholder \<and>
   (\<exists>tbl'. persist_line_runs example_lib [] [example_root, example_child, example_root] = Inr tbl' \<and>
      length (rows_of tbl' ''abc123'') = 1) \<and>
   (\<exists>tbl'. persist_line_runs example_lib [] [example_child, example_root, example_child, example_root] =
        Inr tbl' \<and>
      length (rows_of tbl' ''abc123'') = 1) \<and>
   persist_line_runs example_lib [] [example_root, example_child, example_root] =
     Inr [example_root_line_run] \<and>
   persist_line_runs example_lib [] [example_child, example_root, example_child, example_root] =
     Inr [example_root_line_run]"
proof -
  have none: "length (rows_of [] (determine_line_run_id example_root)) \<le> 1"
    by (simp add: rows_of_def)
  let ?a = "[example_root, example_child, example_root]"
  let ?b = "[example_child, example_root, example_child, example_root]"
  have ia: "example_root \<in> set ?a" and ib: "example_root \<in> set ?b"
    by simp_all
  have ba: "\<forall>x \<in> set ?a. \<exists>lr. built_line_run example_lib [] x = Inr lr"
    and bb: "\<forall>x \<in> set ?b. \<exists>lr. built_line_run example_lib [] x = Inr lr"
    by (simp_all add: example_built)
  note a = persist_line_runs_one_row [OF none ia, of example_lib]
  note b = persist_line_runs_one_row [OF none ib, of example_lib]
  from a ba obtain ta where ta: "persist_line_runs example_lib [] ?a = Inr ta"
    by blast
  with a have ca: "length (rows_of ta ''abc123'') = 1"
    by (simp add: example_root_id)
  from b bb obtain tb where tb: "persist_line_runs example_lib [] ?b = Inr tb"
    by blast
  with b have cb: "length (rows_of tb ''abc123'') = 1"
    by (simp add: example_root_id)
  from ta ca tb cb example_built [of "[]"] example_root_first example_run show ?thesis
    by blast
qed

subsection \<open>Root precedence\<close>

lemma root_step_rows:
  assumes "span.parent_id r = None" and "persist_line_run lib tbl r = Inr tbl1"
  shows "\<exists>lr. from_root_span lib tbl r = Inr lr \<and>
           rows_of tbl1 (determine_line_run_id r) \<noteq> [] \<and>
           set (rows_of tbl1 (determine_line_run_id r)) \<subseteq> {lr}"
proof -
  from assms obtain lr where lr: "from_root_span lib tbl r = Inr lr"
    and t: "try_update tbl lr = Inr tbl1"
    by (auto simp: persist_line_run_def split: sum.splits)
  from lr have i: "line_run_id lr = determine_line_run_id r"
    by (rule from_root_span_line_run_id)
  from t i have "rows_of tbl1 (determine_line_run_id r) \<noteq> [] \<and>
      set (rows_of tbl1 (determine_line_run_id r)) \<subseteq> {lr}"
    by (auto simp: try_update_eq ORMLineRun_persist_def rows_of_append rows_of_update
        split: if_splits)
  with lr show ?thesis by blast
qed

lemma non_root_step_keeps_rows:
  assumes "span.parent_id n \<noteq> None" and "persist_line_run lib tbl n = Inr tbl'"
    and "rows_of tbl i \<noteq> []"
  shows "rows_of tbl' i = rows_of tbl i"
proof -
  from assms(1,2) obtain lr where t: "try_create tbl lr = Inr tbl'"
    by (auto simp: persist_line_run_def split: sum.splits)
  with assms(3) show ?thesis
    by (auto simp: try_create_eq ORMLineRun_persist_def rows_of_append split: if_splits)
qed

lemma non_root_steps_keep_rows:
  assumes "\<forall>n \<in> set ns. span.parent_id n \<noteq> None"
    and "persist_line_runs lib tbl ns = Inr tbl'"
    and "rows_of tbl i \<noteq> []"
  shows "rows_of tbl' i = rows_of tbl i"
  using assms
proof (induction ns arbitrary: tbl)
  case Nil
  then show ?case by simp
next
  case (Cons n ns)
  from Cons.prems(2) obtain tbl1 where s1: "persist_line_run lib tbl n = Inr tbl1"
    and s2: "persist_line_runs lib tbl1 ns = Inr tbl'"
    by (auto split: sum.splits)
  from Cons.prems(1) have n: "span.parent_id n \<noteq> None" by simp
  from non_root_step_keeps_rows [OF n s1 Cons.prems(3)]
  have k: "rows_of tbl1 i = rows_of tbl i" .
  with Cons.prems(3) have "rows_of tbl1 i \<noteq> []" by simp
  with Cons.IH [OF _ s2] Cons.prems(1) have "rows_of tbl' i = rows_of tbl1 i" by simp
  with k show ?case by simp
qed

lemma from_root_span_fields:
  assumes "from_root_span lib tbl r = Inr lr"
  shows "\<exists>st inp outp.
           getitem (span.status r) STATUS_CODE = Inr st \<and>
           get_inputs_from_span lib r = Inr inp \<and>
           get_outputs_from_span lib r = Inr outp \<and>
           line_run.status lr = st \<and>
           line_run.end_time lr = Some (span.end_time r) \<and>
           duration lr = Some (total_seconds (span.end_time r) (span.start_time r)) \<and>
           inputs lr = inp \<and> outputs lr = outp"
  using assms
  by (auto simp: from_root_span_def LineRun_def Let_def split: sum.splits)

text \<open>
  C2. A root span for which \<open>_from_root_span\<close> returns a line run is processed on any
  table, so after any spans that came before it or as the first span of its trace, and
  after it any number of spans that have a parent. Processing the root span returns;
  processing the later spans returns exactly when a placeholder can be built for each.
  The line run that the table then returns for the line run id of the root span has the
  status code of the root span as its status, the end time of the root span, the
  seconds from its start to its end as duration, and the inputs and outputs decoded
  from its events: the values of \<open>_from_root_span\<close>, which no later span with a parent
  changes.
\<close>

theorem root_span_values_persist:
  assumes "span.parent_id r = None"
    and "from_root_span lib tbl r = Inr lr"
    and "\<forall>n \<in> set ns. span.parent_id n \<noteq> None"
  shows "\<exists>tbl1.
           persist_line_run lib tbl r = Inr tbl1 \<and>
           ((\<exists>tbl2. persist_line_runs lib tbl1 ns = Inr tbl2) =
              (\<forall>n \<in> set ns. \<exists>p. from_non_root_span tbl n = Inr p)) \<and>
           (\<forall>tbl2. persist_line_runs lib tbl1 ns = Inr tbl2 \<longrightarrow>
              (\<exists>row. ORMLineRun_get tbl2 (determine_line_run_id r) = Inr row \<and>
                 line_run.status row = line_run.status lr \<and>
                 line_run.end_time row = line_run.end_time lr \<and>
                 duration row = duration lr \<and>
                 inputs row = inputs lr \<and>
                 outputs row = outputs lr)) \<and>
           getitem (span.status r) STATUS_CODE = Inr (line_run.status lr) \<and>
           line_run.end_time lr = Some (span.end_time r) \<and>
           duration lr = Some (total_seconds (span.end_time r) (span.start_time r)) \<and>
           get_inputs_from_span lib r = Inr (inputs lr) \<and>
           get_outputs_from_span lib r = Inr (outputs lr)"
proof -
  let ?i = "determine_line_run_id r"
  from assms(1,2) obtain tbl1 where step: "persist_line_run lib tbl r = Inr tbl1"
    by (auto simp: persist_line_run_def try_update_eq)
  from root_step_rows [OF assms(1) step] assms(2) have
    ne: "rows_of tbl1 ?i \<noteq> []" and
    sub: "set (rows_of tbl1 ?i) \<subseteq> {lr}"
    by auto
  have built: "built_line_run lib t n = from_non_root_span t n" if "n \<in> set ns" for t n
    using that assms(3) by (auto simp: built_line_run_def)
  have "(\<forall>n \<in> set ns. \<exists>p. built_line_run lib tbl1 n = Inr p) =
        (\<forall>n \<in> set ns. \<exists>p. from_non_root_span tbl n = Inr p)"
    using from_non_root_span_returns [of tbl1 _ tbl] by (simp add: built)
  with persist_line_runs_returns [of lib tbl1 ns]
  have ret: "(\<exists>tbl2. persist_line_runs lib tbl1 ns = Inr tbl2) =
      (\<forall>n \<in> set ns. \<exists>p. from_non_root_span tbl n = Inr p)"
    by simp
  have rows: "\<exists>row. ORMLineRun_get tbl2 ?i = Inr row \<and>
                 line_run.status row = line_run.status lr \<and>
                 line_run.end_time row = line_run.end_time lr \<and>
                 duration row = duration lr \<and>
                 inputs row = inputs lr \<and>
                 outputs row = outputs lr"
    if run: "persist_line_runs lib tbl1 ns = Inr tbl2" for tbl2
  proof -
    from non_root_steps_keep_rows [OF assms(3) run ne]
    have keep: "rows_of tbl2 ?i = rows_of tbl1 ?i" .
    from ne sub obtain rs where "rows_of tbl1 ?i = lr # rs"
      by (cases "rows_of tbl1 ?i") auto
    with keep have "ORMLineRun_get tbl2 ?i = Inr lr"
      by (simp add: ORMLineRun_get_rows_of)
    then show ?thesis by simp
  qed
  from step ret rows from_root_span_fields [OF assms(2)] show ?thesis
    by blast
qed

lemma example_root_after_placeholder:
  "persist_line_run example_lib [example_placeholder] example_root = Inr [example_root_line_run]"
  by (simp add: persist_line_run_def example_root_line_run_eq try_update_eq rows_of_def
      ORMLineRun_update_def example_parent_ids example_placeholder_def
      example_root_line_run_def)

lemma example_children_after_root:
  "persist_line_runs example_lib [example_root_line_run] [example_child, example_child] =
     Inr [example_root_line_run]"
  by (simp add: persist_line_run_def example_placeholder_eq try_create_eq rows_of_def
      example_parent_ids example_placeholder_def example_root_line_run_def)

lemma example_root_alone:
  "persist_line_run example_lib [] example_root = Inr [example_root_line_run]"
  by (simp add: persist_line_run_def example_root_line_run_eq try_update_eq rows_of_def
      ORMLineRun_persist_def example_parent_ids)

theorem root_span_values_persist_witness:
  "span.parent_id example_root = None \<and>
   from_root_span example_lib [] example_root = Inr example_root_line_run \<and>
   from_root_span example_lib [example_placeholder] example_root = Inr example_root_line_run \<and>
   span.parent_id example_child \<noteq> None \<and>
   from_non_root_span [] example_child = Inr example_placeholder \<and>
   (\<exists>tbl1 tbl2 row.
      persist_line_run example_lib [] example_root = Inr tbl1 \<and>
      persist_line_runs example_lib tbl1 [example_child, example_child] = Inr tbl2 \<and>
      ORMLineRun_get tbl2 (determine_line_run_id example_root) = Inr row \<and>
      line_run.status row = ''Ok'' \<and>
      line_run.end_time row = Some 1500000 \<and>
      duration row = Some (3 / 2) \<and>
      inputs row = Some (JArr [JNum 1]) \<and>
      outputs row = Some (JArr [JNum 2])) \<and>
   (\<exists>tbl1 tbl2 row.
      persist_line_run example_lib [example_placeholder] example_root = Inr tbl1 \<and>
      persist_line_runs example_lib tbl1 [example_child, example_child] = Inr tbl2 \<and>
      ORMLineRun_get tbl2 (determine_line_run_id example_root) = Inr row \<and>
      line_run.status row = ''Ok'' \<and>
      line_run.end_time row = Some 1500000 \<and>
      duration row = Some (3 / 2) \<and>
      inputs row = Some (JArr [JNum 1]) \<and>
      outputs row = Some (JArr [JNum 2])) \<and>
   persist_line_run example_lib [] example_root = Inr [example_root_line_run] \<and>
   persist_line_run example_lib [example_placeholder] example_root = Inr [example_root_line_run] \<and>
   persist_line_runs example_lib [example_root_line_run] [example_child, example_child] =
     Inr [example_root_line_run]"
proof -
  let ?ns = "[example_child, example_child]"
  have c: "\<forall>n \<in> set ?ns. span.parent_id n \<noteq> None"
    by (simp add: example_parent_ids)
  have fields: "line_run.status example_root_line_run = ''Ok''"
    "line_run.end_time example_root_line_run = Some 1500000"
    "duration example_root_line_run = Some (3 / 2)"
    "inputs example_root_line_run = Some (JArr [JNum 1])"
    "outputs example_root_line_run = Some (JArr [JNum 2])"
    by (simp_all add: example_root_line_run_def)
  have scenario: "\<exists>tbl1 tbl2 row.
      persist_line_run example_lib tbl example_root = Inr tbl1 \<and>
      persist_line_runs example_lib tbl1 ?ns = Inr tbl2 \<and>
      ORMLineRun_get tbl2 (determine_line_run_id example_root) = Inr row \<and>
      line_run.status row = ''Ok'' \<and>
      line_run.end_time row = Some 1500000 \<and>
      duration row = Some (3 / 2) \<and>
      inputs row = Some (JArr [JNum 1]) \<and>
      outputs row = Some (JArr [JNum 2])" for tbl
  proof -
    from root_span_values_persist [OF example_parent_ids(1) example_root_line_run_eq c]
    obtain tbl1 where
      step: "persist_line_run example_lib tbl example_root = Inr tbl1" and
      ret: "(\<exists>tbl2. persist_line_runs example_lib tbl1 ?ns = Inr tbl2) =
              (\<forall>n \<in> set ?ns. \<exists>p. from_non_root_span tbl n = Inr p)" and
      rows: "\<forall>tbl2. persist_line_runs example_lib tbl1 ?ns = Inr tbl2 \<longrightarrow>
              (\<exists>row. ORMLineRun_get tbl2 (determine_line_run_id example_root) = Inr row \<and>
                 line_run.status row = line_run.status example_root_line_run \<and>
                 line_run.end_time row = line_run.end_time example_root_line_run \<and>
                 duration row = duration example_root_line_run \<and>
                 inputs row = inputs example_root_line_run \<and>
                 outputs row = outputs example_root_line_run)"
      by blast
    have "\<forall>n \<in> set ?ns. \<exists>p. from_non_root_span tbl n = Inr p"
      by (simp add: example_placeholder_eq)
    with ret obtain tbl2 where run: "persist_line_runs example_lib tbl1 ?ns = Inr tbl2"
      by blast
    with rows obtain row where
      "ORMLineRun_get tbl2 (determine_line_run_id example_root) = Inr row"
      "line_run.status row = line_run.status example_root_line_run"
      "line_run.end_time row = line_run.end_time example_root_line_run"
      "duration row = duration example_root_line_run"
      "inputs row = inputs example_root_line_run"
      "outputs row = outputs example_root_line_run"
      by blast
    with step run fields show ?thesis
      by auto
  qed
  have child: "span.parent_id example_child \<noteq> None"
    by (simp add: example_parent_ids)
  from scenario [of "[]"] scenario [of "[example_placeholder]"] example_parent_ids(1) child
    example_root_line_run_eq [of "[]"] example_root_line_run_eq [of "[example_placeholder]"]
    example_placeholder_eq [of "[]"] example_root_alone example_root_after_placeholder
    example_children_after_root
  show ?thesis
    by blast
qed

subsection \<open>Externalization round trip\<close>

lemma find_append:
  "find P (xs @ ys) = (case find P xs of None \<Rightarrow> find P ys | Some x \<Rightarrow> Some x)"
  by (induction xs) auto

lemma ORMEvent_get_append:
  "ORMEvent_get (tbl @ rows) eid =
     (case ORMEvent_get tbl eid of Inl e \<Rightarrow> ORMEvent_get rows eid | Inr r \<Rightarrow> Inr r)"
  by (simp add: ORMEvent_get_def find_append split: option.splits)

lemma ORMEvent_get_fresh:
  "eid \<notin> event_id ` set tbl \<Longrightarrow> ORMEvent_get tbl eid = Inl EventNotFoundError"
  by (auto simp: ORMEvent_get_def find_None_iff split: option.splits)

lemma persist_events_from_Cons:
  "fst (persist_events_from lib uuid4 tid sid i (e # es) tbl) =
     fst (persist_events_from lib uuid4 tid sid (Suc i) es
            (tbl @ [\<lparr>event_id = uuid4 i, trace_id = tid, span_id = sid,
                      data = json_dumps lib e\<rparr>]))"
  "snd (persist_events_from lib uuid4 tid sid i (e # es) tbl) =
     e\<lparr>event.attributes := [(SPAN_EVENTS_ATTRIBUTES_EVENT_ID, uuid4 i)]\<rparr> #
     snd (persist_events_from lib uuid4 tid sid (Suc i) es
            (tbl @ [\<lparr>event_id = uuid4 i, trace_id = tid, span_id = sid,
                      data = json_dumps lib e\<rparr>]))"
  by (simp_all add: ORMEvent_persist_def Let_def case_prod_beta)

lemma persist_events_from_table:
  "\<exists>rows. fst (persist_events_from lib uuid4 tid sid i es tbl) = tbl @ rows"
proof (induction es arbitrary: i tbl)
  case Nil
  then show ?case by simp
next
  case (Cons e es)
  let ?row = "\<lparr>event_id = uuid4 i, trace_id = tid, span_id = sid, data = json_dumps lib e\<rparr>"
  from Cons [of "Suc i" "tbl @ [?row]"] obtain rows where
    "fst (persist_events_from lib uuid4 tid sid (Suc i) es (tbl @ [?row])) = (tbl @ [?row]) @ rows"
    by blast
  then have "fst (persist_events_from lib uuid4 tid sid i (e # es) tbl) = tbl @ (?row # rows)"
    by (simp add: persist_events_from_Cons del: persist_events_from.simps(2))
  then show ?case by blast
qed

lemma persist_events_from_events:
  "snd (persist_events_from lib uuid4 tid sid i es tbl) =
     map (\<lambda>(j, e). e\<lparr>event.attributes := [(SPAN_EVENTS_ATTRIBUTES_EVENT_ID, uuid4 j)]\<rparr>)
       (zip [i..<i + length es] es)"
proof (induction es arbitrary: i tbl)
  case Nil
  then show ?case by simp
next
  case (Cons e es)
  have "[i..<i + length (e # es)] = i # [Suc i..<Suc i + length es]"
    by (subst upt_rec) simp
  with Cons [of "Suc i"] show ?case
    by (simp add: persist_events_from_Cons del: persist_events_from.simps(2))
qed

lemma Event_get_after_persist:
  assumes "inj_on uuid4 {i..<i + length es}"
    and "\<forall>j < length es. uuid4 (i + j) \<notin> event_id ` set tbl"
    and "\<forall>e \<in> set es. json_loads_event lib (json_dumps lib e) = Some e"
    and "j < length es"
  shows "Event_get lib (fst (persist_events_from lib uuid4 tid sid i es tbl)) (uuid4 (i + j)) =
           Inr (es ! j)"
  using assms
proof (induction es arbitrary: i tbl j)
  case Nil
  then show ?case by simp
next
  case (Cons e es)
  let ?row = "\<lparr>event_id = uuid4 i, trace_id = tid, span_id = sid, data = json_dumps lib e\<rparr>"
  let ?tbl = "tbl @ [?row]"
  have unfold: "fst (persist_events_from lib uuid4 tid sid i (e # es) tbl) =
      fst (persist_events_from lib uuid4 tid sid (Suc i) es ?tbl)"
    by (simp add: persist_events_from_Cons del: persist_events_from.simps(2))
  show ?case
  proof (cases j)
    case 0
    from persist_events_from_table [of lib uuid4 tid sid "Suc i" es ?tbl]
    obtain rows where
      r: "fst (persist_events_from lib uuid4 tid sid (Suc i) es ?tbl) = tbl @ ?row # rows"
      by auto
    from Cons.prems(2) have "uuid4 i \<notin> event_id ` set tbl"
      by fastforce
    then have "ORMEvent_get (tbl @ ?row # rows) (uuid4 i) = Inr ?row"
      by (simp add: ORMEvent_get_append ORMEvent_get_fresh) (simp add: ORMEvent_get_def)
    with Cons.prems(3) 0 unfold r show ?thesis
      by (simp add: Event_get_def)
  next
    case (Suc k)
    from Cons.prems(1) have inj: "inj_on uuid4 {Suc i..<Suc i + length es}"
      by (rule inj_on_subset) auto
    have fresh: "\<forall>j < length es. uuid4 (Suc i + j) \<notin> event_id ` set ?tbl"
    proof (intro allI impI)
      fix j assume j: "j < length es"
      with Cons.prems(2) have a: "uuid4 (i + Suc j) \<notin> event_id ` set tbl"
        by (metis length_Cons Suc_less_eq)
      have "uuid4 (Suc i + j) \<noteq> uuid4 i"
      proof
        assume "uuid4 (Suc i + j) = uuid4 i"
        from inj_onD [OF Cons.prems(1) this] j show False
          by simp
      qed
      with a show "uuid4 (Suc i + j) \<notin> event_id ` set ?tbl"
        by simp
    qed
    from Cons.prems(3) have codec: "\<forall>e \<in> set es. json_loads_event lib (json_dumps lib e) = Some e"
      by simp
    from Cons.prems(4) Suc have k: "k < length es" by simp
    from Cons.IH [OF inj fresh codec k] unfold Suc show ?thesis
      by simp
  qed
qed

lemma load_events_from_resolves:
  assumes "length es = length ids" and "length evs = length ids"
    and "\<forall>i < length ids.
           map_of (event.attributes (es ! i)) SPAN_EVENTS_ATTRIBUTES_EVENT_ID = Some (ids ! i) \<and>
           Event_get lib tbl (ids ! i) = Inr (evs ! i)"
  shows "load_events_from lib tbl es = Inr (ids, evs)"
  using assms
proof (induction es arbitrary: ids evs)
  case Nil
  then show ?case by simp
next
  case (Cons e es)
  from Cons.prems(1) obtain i ids' where ids: "ids = i # ids'"
    by (cases ids) auto
  with Cons.prems(2) obtain v evs' where evs: "evs = v # evs'"
    by (cases evs) auto
  from Cons.prems(3) ids evs have head:
    "map_of (event.attributes e) SPAN_EVENTS_ATTRIBUTES_EVENT_ID = Some i"
    "Event_get lib tbl i = Inr v"
    by auto
  have "\<forall>k < length ids'.
      map_of (event.attributes (es ! k)) SPAN_EVENTS_ATTRIBUTES_EVENT_ID = Some (ids' ! k) \<and>
      Event_get lib tbl (ids' ! k) = Inr (evs' ! k)"
  proof (intro allI impI)
    fix k assume "k < length ids'"
    then have "Suc k < length ids" by (simp add: ids)
    with Cons.prems(3) show
      "map_of (event.attributes (es ! k)) SPAN_EVENTS_ATTRIBUTES_EVENT_ID = Some (ids' ! k) \<and>
       Event_get lib tbl (ids' ! k) = Inr (evs' ! k)"
      unfolding ids evs by (metis nth_Cons_Suc)
  qed
  with Cons.IH [of ids' evs'] Cons.prems(1,2) ids evs
  have "load_events_from lib tbl es = Inr (ids', evs')"
    by simp
  with head ids evs show ?case
    by (simp add: getitem_def)
qed

text \<open>
  C4. A span is externalized with ids that are fresh for the Event table and different
  from each other, and with a JSON codec that reads back each of its events. Then the
  span keeps its number of events, the attributes of its event \<open>i\<close> are the one
  entry that maps the reference key to the id drawn for it, and \<open>Event.get\<close> of that id
  on the new table returns the event \<open>i\<close> as it was before. \<open>_load_events\<close> on the
  externalized span gives the span back with its events as they were before, and
  records the ids.
\<close>

theorem persist_events_round_trip:
  assumes "\<forall>i < length (span.events s). uuid4 i \<notin> event_id ` set tbl"
    and "distinct (map uuid4 [0..<length (span.events s)])"
    and "\<forall>e \<in> set (span.events s). json_loads_event lib (json_dumps lib e) = Some e"
    and "persist_events lib uuid4 tbl s = (tbl', s')"
  shows "length (span.events s') = length (span.events s) \<and>
         (\<forall>i < length (span.events s).
            event.attributes (span.events s' ! i) =
              [(SPAN_EVENTS_ATTRIBUTES_EVENT_ID, uuid4 i)] \<and>
            Event_get lib tbl' (uuid4 i) = Inr (span.events s ! i)) \<and>
         load_events lib tbl' s' =
           Inr (s\<lparr>external_event_ids :=
                    external_event_ids s @ map uuid4 [0..<length (span.events s)]\<rparr>)"
proof -
  let ?es = "span.events s"
  let ?r = "persist_events_from lib uuid4 (span.trace_id s) (span.span_id s) 0 ?es tbl"
  from assms(4) have tbl': "tbl' = fst ?r" and s': "s' = s\<lparr>span.events := snd ?r\<rparr>"
    by (auto simp: persist_events_def Let_def split: prod.splits)
  from assms(2) have inj: "inj_on uuid4 {0..<0 + length ?es}"
    by (simp add: distinct_map)
  from assms(1) have fresh: "\<forall>j < length ?es. uuid4 (0 + j) \<notin> event_id ` set tbl"
    by simp
  have len: "length (span.events s') = length ?es"
    by (simp add: s' persist_events_from_events)
  have each: "event.attributes (span.events s' ! i) = [(SPAN_EVENTS_ATTRIBUTES_EVENT_ID, uuid4 i)] \<and>
        Event_get lib tbl' (uuid4 i) = Inr (?es ! i)" if i: "i < length ?es" for i
  proof
    from i show "event.attributes (span.events s' ! i) =
        [(SPAN_EVENTS_ATTRIBUTES_EVENT_ID, uuid4 i)]"
      by (simp add: s' persist_events_from_events)
    from Event_get_after_persist [OF inj fresh assms(3) i]
    show "Event_get lib tbl' (uuid4 i) = Inr (?es ! i)"
      by (simp add: tbl')
  qed
  have "load_events_from lib tbl' (span.events s') = Inr (map uuid4 [0..<length ?es], ?es)"
  proof (rule load_events_from_resolves)
    show "length (span.events s') = length (map uuid4 [0..<length ?es])"
      by (simp add: len)
    show "length ?es = length (map uuid4 [0..<length ?es])"
      by simp
    show "\<forall>i < length (map uuid4 [0..<length ?es]).
        map_of (event.attributes (span.events s' ! i)) SPAN_EVENTS_ATTRIBUTES_EVENT_ID =
          Some (map uuid4 [0..<length ?es] ! i) \<and>
        Event_get lib tbl' (map uuid4 [0..<length ?es] ! i) = Inr (?es ! i)"
      using each by simp
  qed
  then have "load_events lib tbl' s' =
      Inr (s\<lparr>external_event_ids := external_event_ids s @ map uuid4 [0..<length ?es]\<rparr>)"
    by (simp add: load_events_def s')
  with len each show ?thesis
    by blast
qed

lemma example_root_events:
  "span.events example_root = [example_inputs_event, example_output_event]"
  by (simp add: example_root_def)

lemma example_codec:
  "json_loads_event example_lib (json_dumps example_lib example_inputs_event) =
     Some example_inputs_event"
  "json_loads_event example_lib (json_dumps example_lib example_output_event) =
     Some example_output_event"
  by (simp_all add: example_lib_def example_encode_def example_inputs_event_def
      example_output_event_def constant_defs)

theorem persist_events_round_trip_witness:
  "example_uuid4 0 \<noteq> example_uuid4 1 \<and>
   json_loads_event example_lib (json_dumps example_lib example_inputs_event) =
     Some example_inputs_event \<and>
   json_loads_event example_lib (json_dumps example_lib example_output_event) =
     Some example_output_event \<and>
   event.attributes (span.events (snd (persist_events example_lib example_uuid4 [] example_root)) ! 0) =
     [(SPAN_EVENTS_ATTRIBUTES_EVENT_ID, ''e0'')] \<and>
   event.attributes (span.events (snd (persist_events example_lib example_uuid4 [] example_root)) ! 1) =
     [(SPAN_EVENTS_ATTRIBUTES_EVENT_ID, ''e1'')] \<and>
   Event_get example_lib (fst (persist_events example_lib example_uuid4 [] example_root)) ''e0'' =
     Inr example_inputs_event \<and>
   Event_get example_lib (fst (persist_events example_lib example_uuid4 [] example_root)) ''e1'' =
     Inr example_output_event \<and>
   load_events example_lib (fst (persist_events example_lib example_uuid4 [] example_root))
     (snd (persist_events example_lib example_uuid4 [] example_root)) = Inr example_resolved_span"
proof -
  let ?r = "persist_events example_lib example_uuid4 [] example_root"
  have fresh: "\<forall>i < length (span.events example_root). example_uuid4 i \<notin> event_id ` set []"
    by simp
  have ids: "example_uuid4 0 = ''e0''" "example_uuid4 1 = ''e1''"
    by (simp_all add: example_uuid4_def)
  have "[0..<length (span.events example_root)] = [0, 1]"
    by (simp add: example_root_events upt_rec)
  then have dist: "distinct (map example_uuid4 [0..<length (span.events example_root)])"
    by (simp add: example_uuid4_def)
  have codec: "\<forall>e \<in> set (span.events example_root).
      json_loads_event example_lib (json_dumps example_lib e) = Some e"
    by (simp add: example_root_events example_codec)
  have res: "?r = (fst ?r, snd ?r)"
    by simp
  note all = persist_events_round_trip
    [OF fresh dist codec res, THEN conjunct2, THEN conjunct1, rule_format]
  note load = persist_events_round_trip
    [OF fresh dist codec res, THEN conjunct2, THEN conjunct2]
  have two: "[0..<length (span.events example_root)] = [0, 1]"
    by (simp add: example_root_events upt_rec)
  from load have l: "load_events example_lib (fst ?r) (snd ?r) = Inr example_resolved_span"
    by (simp add: two example_uuid4_def example_resolved_span_def example_root_def)
  have "(0::nat) < length (span.events example_root)" "(1::nat) < length (span.events example_root)"
    by (simp_all add: example_root_events)
  from all [OF this(1)] all [OF this(2)] example_codec ids l show ?thesis
    by (simp add: example_root_events)
qed

subsection \<open>Externalization applied again\<close>

lemma persist_events_fields:
  "fst (persist_events lib uuid4 tbl s) =
     fst (persist_events_from lib uuid4 (span.trace_id s) (span.span_id s) 0 (span.events s) tbl)"
  "span.events (snd (persist_events lib uuid4 tbl s)) =
     snd (persist_events_from lib uuid4 (span.trace_id s) (span.span_id s) 0 (span.events s) tbl)"
  "external_event_ids (snd (persist_events lib uuid4 tbl s)) = external_event_ids s"
  by (simp_all add: persist_events_def Let_def case_prod_beta)

lemma persist_events_attributes:
  "map event.attributes (span.events (snd (persist_events lib uuid4 tbl s))) =
     map (\<lambda>i. [(SPAN_EVENTS_ATTRIBUTES_EVENT_ID, uuid4 i)]) [0..<length (span.events s)]"
proof (rule nth_equalityI)
  show "length (map event.attributes (span.events (snd (persist_events lib uuid4 tbl s)))) =
      length (map (\<lambda>i. [(SPAN_EVENTS_ATTRIBUTES_EVENT_ID, uuid4 i)]) [0..<length (span.events s)])"
    by (simp add: persist_events_fields persist_events_from_events)
next
  fix i
  assume "i < length (map event.attributes (span.events (snd (persist_events lib uuid4 tbl s))))"
  then have "i < length (span.events s)"
    by (simp add: persist_events_fields persist_events_from_events)
  then show "map event.attributes (span.events (snd (persist_events lib uuid4 tbl s))) ! i =
      map (\<lambda>i. [(SPAN_EVENTS_ATTRIBUTES_EVENT_ID, uuid4 i)]) [0..<length (span.events s)] ! i"
    by (simp add: persist_events_fields persist_events_from_events)
qed

lemma load_events_from_ids:
  "load_events_from lib tbl es = Inr (ids, evs) \<Longrightarrow>
     map (\<lambda>e. map_of (event.attributes e) SPAN_EVENTS_ATTRIBUTES_EVENT_ID) es = map Some ids \<and>
     map (Event_get lib tbl) ids = map Inr evs"
  by (induction es arbitrary: ids evs)
    (auto simp: getitem_def split: option.splits sum.splits)

lemma persist_events_resolve:
  assumes "\<forall>i < length (span.events s). uuid4 i \<notin> event_id ` set tbl"
    and "distinct (map uuid4 [0..<length (span.events s)])"
    and "\<forall>e \<in> set (span.events s). json_loads_event lib (json_dumps lib e) = Some e"
    and "i < length (span.events s)"
  shows "Event_get lib (fst (persist_events lib uuid4 tbl s)) (uuid4 i) = Inr (span.events s ! i)"
proof -
  from assms(2) have inj: "inj_on uuid4 {0..<0 + length (span.events s)}"
    by (simp add: distinct_map)
  from assms(1) have fresh: "\<forall>j < length (span.events s). uuid4 (0 + j) \<notin> event_id ` set tbl"
    by simp
  from Event_get_after_persist [OF inj fresh assms(3) assms(4)] show ?thesis
    by (simp add: persist_events_fields)
qed

text \<open>
  C5, as the code has it. Externalization has no guard: applied to a span that is
  already externalized, it draws new ids, stores each event that holds a reference
  under its new id and puts the new reference in place of the old one, so that the new
  reference resolves to an event that holds the old reference. Externalization leaves
  the ids recorded in the span as they are; only \<open>_load_events\<close> records ids, one for
  each event it resolves.
\<close>

theorem persist_events_again_replaces_references:
  assumes "persist_events lib uuid4 tbl s = (tbl1, s1)"
    and "persist_events lib uuid4' tbl1 s1 = (tbl2, s2)"
    and "\<forall>i < length (span.events s). uuid4' i \<notin> event_id ` set tbl1"
    and "distinct (map uuid4' [0..<length (span.events s)])"
    and "\<forall>e \<in> set (span.events s1). json_loads_event lib (json_dumps lib e) = Some e"
  shows "external_event_ids s1 = external_event_ids s \<and>
         external_event_ids s2 = external_event_ids s \<and>
         (\<forall>i < length (span.events s).
            event.attributes (span.events s1 ! i) =
              [(SPAN_EVENTS_ATTRIBUTES_EVENT_ID, uuid4 i)] \<and>
            event.attributes (span.events s2 ! i) =
              [(SPAN_EVENTS_ATTRIBUTES_EVENT_ID, uuid4' i)] \<and>
            (\<exists>e. Event_get lib tbl2 (uuid4' i) = Inr e \<and>
                 event.attributes e = [(SPAN_EVENTS_ATTRIBUTES_EVENT_ID, uuid4 i)])) \<and>
         (\<forall>tbl0 x x'. load_events lib tbl0 x = Inr x' \<longrightarrow>
            length (external_event_ids x') =
              length (external_event_ids x) + length (span.events x))"
proof -
  from assms(1) have s1: "s1 = snd (persist_events lib uuid4 tbl s)" by simp
  from assms(2) have s2: "s2 = snd (persist_events lib uuid4' tbl1 s1)" by simp
  have len1: "length (span.events s1) = length (span.events s)"
    by (simp add: s1 persist_events_fields persist_events_from_events)
  have a1: "event.attributes (span.events s1 ! i) = [(SPAN_EVENTS_ATTRIBUTES_EVENT_ID, uuid4 i)]"
    if "i < length (span.events s)" for i
    using that by (simp add: s1 persist_events_fields persist_events_from_events)
  from assms(2) have tbl2: "tbl2 = fst (persist_events lib uuid4' tbl1 s1)" by simp
  have a2: "event.attributes (span.events s2 ! i) = [(SPAN_EVENTS_ATTRIBUTES_EVENT_ID, uuid4' i)]"
    if "i < length (span.events s)" for i
    using that len1 by (simp add: s2 persist_events_fields persist_events_from_events)
  have second: "Event_get lib tbl2 (uuid4' i) = Inr (span.events s1 ! i)"
    if "i < length (span.events s)" for i
    using persist_events_resolve [of s1 uuid4' tbl1 lib i] assms(3,4,5) that
    by (simp add: len1 tbl2)
  have ids: "external_event_ids s1 = external_event_ids s"
    "external_event_ids s2 = external_event_ids s"
    by (simp_all add: s2 s1 persist_events_fields)
  have load: "length (external_event_ids x') =
      length (external_event_ids x) + length (span.events x)"
    if "load_events lib tbl0 x = Inr x'" for tbl0 x x'
  proof -
    from that obtain ids evs where l: "load_events_from lib tbl0 (span.events x) = Inr (ids, evs)"
      and x': "x' = x\<lparr>span.events := evs, external_event_ids := external_event_ids x @ ids\<rparr>"
      by (auto simp: load_events_def split: sum.splits)
    from load_events_from_ids [OF l] have "length ids = length (span.events x)"
      by (metis length_map)
    with x' show ?thesis by simp
  qed
  from ids a1 a2 second load show ?thesis
    by auto
qed

lemma example_externalized:
  "span.events (snd (persist_events example_lib example_uuid4 [] example_root)) =
     [example_inputs_reference, example_output_reference]"
  "event_id ` set (fst (persist_events example_lib example_uuid4 [] example_root)) = {''e0'', ''e1''}"
  by (simp_all add: persist_events_fields example_root_events ORMEvent_persist_def Let_def
      example_uuid4_def example_inputs_reference_def example_output_reference_def)

lemma example_reference_codec:
  "json_loads_event example_lib (json_dumps example_lib example_inputs_reference) =
     Some example_inputs_reference"
  "json_loads_event example_lib (json_dumps example_lib example_output_reference) =
     Some example_output_reference"
  by (simp_all add: example_lib_def example_encode_def example_inputs_event_def
      example_output_event_def example_inputs_reference_def example_output_reference_def
      constant_defs)

theorem persist_events_twice_counterexample:
  "map event.attributes
     (span.events (snd (persist_events example_lib example_uuid4_again
        (fst (persist_events example_lib example_uuid4 [] example_root))
        (snd (persist_events example_lib example_uuid4 [] example_root))))) \<noteq>
   map event.attributes
     (span.events (snd (persist_events example_lib example_uuid4 [] example_root)))"
proof -
  have two: "[0..<2] = [0, 1]"
    by (simp add: upt_rec)
  show ?thesis
    by (simp add: persist_events_attributes example_externalized example_root_events two
        example_uuid4_def example_uuid4_again_def example_inputs_reference_def
        example_output_reference_def)
qed

theorem persist_events_again_replaces_references_witness:
  "example_uuid4_again 0 \<noteq> example_uuid4_again 1 \<and>
   span.events (snd (persist_events example_lib example_uuid4 [] example_root)) =
     [example_inputs_reference, example_output_reference] \<and>
   event.attributes (span.events (snd (persist_events example_lib example_uuid4 [] example_root)) ! 0) =
     [(SPAN_EVENTS_ATTRIBUTES_EVENT_ID, ''e0'')] \<and>
   event.attributes
     (span.events (snd (persist_events example_lib example_uuid4_again
        (fst (persist_events example_lib example_uuid4 [] example_root))
        (snd (persist_events example_lib example_uuid4 [] example_root)))) ! 0) =
     [(SPAN_EVENTS_ATTRIBUTES_EVENT_ID, ''e2'')] \<and>
   (\<exists>e. Event_get example_lib
          (fst (persist_events example_lib example_uuid4_again
             (fst (persist_events example_lib example_uuid4 [] example_root))
             (snd (persist_events example_lib example_uuid4 [] example_root)))) ''e2'' = Inr e \<and>
        event.attributes e = [(SPAN_EVENTS_ATTRIBUTES_EVENT_ID, ''e0'')]) \<and>
   external_event_ids
     (snd (persist_events example_lib example_uuid4_again
        (fst (persist_events example_lib example_uuid4 [] example_root))
        (snd (persist_events example_lib example_uuid4 [] example_root)))) = []"
proof -
  let ?x = "persist_events example_lib example_uuid4 [] example_root"
  let ?y = "persist_events example_lib example_uuid4_again (fst ?x) (snd ?x)"
  have h1: "?x = (fst ?x, snd ?x)" and h2: "?y = (fst ?y, snd ?y)"
    by simp_all
  have ids: "example_uuid4 0 = ''e0''" "example_uuid4_again 0 = ''e2''"
    "example_uuid4_again 1 = ''e3''"
    by (simp_all add: example_uuid4_def example_uuid4_again_def)
  have two: "[0..<length (span.events example_root)] = [0, 1]"
    by (simp add: example_root_events upt_rec)
  have h3: "\<forall>i < length (span.events example_root). example_uuid4_again i \<notin> event_id ` set (fst ?x)"
    by (simp add: example_externalized example_uuid4_again_def)
  have h4: "distinct (map example_uuid4_again [0..<length (span.events example_root)])"
    by (simp add: two example_uuid4_again_def)
  have h5: "\<forall>e \<in> set (span.events (snd ?x)).
      json_loads_event example_lib (json_dumps example_lib e) = Some e"
    by (simp add: example_externalized example_reference_codec)
  note again = persist_events_again_replaces_references [OF h1 h2 h3 h4 h5]
  have zero: "(0::nat) < length (span.events example_root)"
    by (simp add: example_root_events)
  from again have "external_event_ids (snd ?y) = external_event_ids example_root"
    by blast
  then have a: "external_event_ids (snd ?y) = []"
    by (simp add: example_root_def)
  from again [THEN conjunct2, THEN conjunct2, THEN conjunct1, rule_format, OF zero] ids a
    example_externalized(1)
  show ?thesis
    by simp
qed

subsection \<open>Serialization\<close>

lemma pop_event_ids_references:
  assumes "\<forall>e \<in> set es. map_of (event.attributes e) SPAN_EVENTS_ATTRIBUTES_EVENT_ID \<noteq> None"
  shows "\<exists>ids. pop_event_ids es =
           Inr (map (\<lambda>e. e\<lparr>event.attributes :=
                       AList.delete SPAN_EVENTS_ATTRIBUTES_EVENT_ID (event.attributes e)\<rparr>) es, ids) \<and>
           map Some ids = map (\<lambda>e. map_of (event.attributes e) SPAN_EVENTS_ATTRIBUTES_EVENT_ID) es"
  using assms
  by (induction es) (auto simp: getitem_def split: option.splits)

lemma pop_event_ids_missing:
  assumes "\<exists>e \<in> set es. map_of (event.attributes e) SPAN_EVENTS_ATTRIBUTES_EVENT_ID = None"
  shows "pop_event_ids es = Inl (KeyError SPAN_EVENTS_ATTRIBUTES_EVENT_ID)"
  using assms
proof (induction es)
  case Nil
  then show ?case by simp
next
  case (Cons e es)
  show ?case
  proof (cases "map_of (event.attributes e) SPAN_EVENTS_ATTRIBUTES_EVENT_ID")
    case None
    then show ?thesis by (simp add: getitem_def)
  next
    case (Some eid)
    with Cons.prems have "\<exists>x \<in> set es. map_of (event.attributes x) SPAN_EVENTS_ATTRIBUTES_EVENT_ID = None"
      by auto
    from Cons.IH [OF this] Some show ?thesis
      by (simp add: getitem_def)
  qed
qed

text \<open>
  C9, as the code has it. The start and end time of the mapping are the ISO strings of
  the span's. For a span whose events \<open>_load_events\<close> resolved, the list
  \<open>external_event_data_uris\<close> is the ids recorded in the span, which are the references
  the events held and resolve to the serialized events, and the serialized events are
  the resolved ones. For a span with no recorded ids whose events each hold a reference,
  the list is these references in order, and each serialized event is the event without
  its reference. A span with no recorded ids that has an event without a reference is
  not serialized: taking the reference out raises \<open>KeyError\<close>.
\<close>

theorem to_rest_object_external_event_data_uris:
  "(external_event_ids s = [] \<and> load_events lib tbl s = Inr s' \<longrightarrow>
      (\<exists>r. to_rest_object lib s' = Inr r \<and>
           external_event_data_uris r = external_event_ids s' \<and>
           map Some (external_event_data_uris r) =
             map (\<lambda>e. map_of (event.attributes e) SPAN_EVENTS_ATTRIBUTES_EVENT_ID) (span.events s) \<and>
           map (Event_get lib tbl) (external_event_data_uris r) = map Inr (rest_span.events r) \<and>
           rest_span.events r = span.events s' \<and>
           rest_span.start_time r = isoformat lib (span.start_time s') \<and>
           rest_span.end_time r = isoformat lib (span.end_time s'))) \<and>
   (external_event_ids s = [] \<and>
    (\<forall>e \<in> set (span.events s).
        map_of (event.attributes e) SPAN_EVENTS_ATTRIBUTES_EVENT_ID \<noteq> None) \<longrightarrow>
      (\<exists>r. to_rest_object lib s = Inr r \<and>
           map Some (external_event_data_uris r) =
             map (\<lambda>e. map_of (event.attributes e) SPAN_EVENTS_ATTRIBUTES_EVENT_ID) (span.events s) \<and>
           rest_span.events r =
             map (\<lambda>e. e\<lparr>event.attributes :=
                    AList.delete SPAN_EVENTS_ATTRIBUTES_EVENT_ID (event.attributes e)\<rparr>)
               (span.events s) \<and>
           rest_span.start_time r = isoformat lib (span.start_time s) \<and>
           rest_span.end_time r = isoformat lib (span.end_time s))) \<and>
   (external_event_ids s = [] \<and>
    (\<exists>e \<in> set (span.events s).
        map_of (event.attributes e) SPAN_EVENTS_ATTRIBUTES_EVENT_ID = None) \<longrightarrow>
      to_rest_object lib s = Inl (KeyError SPAN_EVENTS_ATTRIBUTES_EVENT_ID))"
proof (intro conjI impI)
  assume a: "external_event_ids s = [] \<and> load_events lib tbl s = Inr s'"
  then obtain ids evs where l: "load_events_from lib tbl (span.events s) = Inr (ids, evs)"
    and s': "s' = s\<lparr>span.events := evs, external_event_ids := ids\<rparr>"
    by (auto simp: load_events_def split: sum.splits)
  note r = load_events_from_ids [OF l]
  show "\<exists>r. to_rest_object lib s' = Inr r \<and>
           external_event_data_uris r = external_event_ids s' \<and>
           map Some (external_event_data_uris r) =
             map (\<lambda>e. map_of (event.attributes e) SPAN_EVENTS_ATTRIBUTES_EVENT_ID) (span.events s) \<and>
           map (Event_get lib tbl) (external_event_data_uris r) = map Inr (rest_span.events r) \<and>
           rest_span.events r = span.events s' \<and>
           rest_span.start_time r = isoformat lib (span.start_time s') \<and>
           rest_span.end_time r = isoformat lib (span.end_time s')"
  proof (cases ids)
    case Nil
    with r have "evs = []" by simp
    with Nil r s' show ?thesis
      by (simp add: to_rest_object_def)
  next
    case (Cons i rest)
    with r s' show ?thesis
      by (simp add: to_rest_object_def)
  qed
next
  assume b: "external_event_ids s = [] \<and>
    (\<forall>e \<in> set (span.events s).
        map_of (event.attributes e) SPAN_EVENTS_ATTRIBUTES_EVENT_ID \<noteq> None)"
  then have "\<forall>e \<in> set (span.events s).
        map_of (event.attributes e) SPAN_EVENTS_ATTRIBUTES_EVENT_ID \<noteq> None"
    by blast
  from pop_event_ids_references [OF this] obtain ids where
    "pop_event_ids (span.events s) =
       Inr (map (\<lambda>e. e\<lparr>event.attributes :=
                   AList.delete SPAN_EVENTS_ATTRIBUTES_EVENT_ID (event.attributes e)\<rparr>)
              (span.events s), ids)"
    "map Some ids = map (\<lambda>e. map_of (event.attributes e) SPAN_EVENTS_ATTRIBUTES_EVENT_ID) (span.events s)"
    by blast
  with b show "\<exists>r. to_rest_object lib s = Inr r \<and>
           map Some (external_event_data_uris r) =
             map (\<lambda>e. map_of (event.attributes e) SPAN_EVENTS_ATTRIBUTES_EVENT_ID) (span.events s) \<and>
           rest_span.events r =
             map (\<lambda>e. e\<lparr>event.attributes :=
                    AList.delete SPAN_EVENTS_ATTRIBUTES_EVENT_ID (event.attributes e)\<rparr>)
               (span.events s) \<and>
           rest_span.start_time r = isoformat lib (span.start_time s) \<and>
           rest_span.end_time r = isoformat lib (span.end_time s)"
    by (simp add: to_rest_object_def)
next
  assume c: "external_event_ids s = [] \<and>
    (\<exists>e \<in> set (span.events s).
        map_of (event.attributes e) SPAN_EVENTS_ATTRIBUTES_EVENT_ID = None)"
  then have "pop_event_ids (span.events s) = Inl (KeyError SPAN_EVENTS_ATTRIBUTES_EVENT_ID)"
    by (intro pop_event_ids_missing) blast
  with c show "to_rest_object lib s = Inl (KeyError SPAN_EVENTS_ATTRIBUTES_EVENT_ID)"
    by (simp add: to_rest_object_def)
qed

theorem to_rest_object_raw_events_counterexample:
  "external_event_ids example_root = [] \<and>
   to_rest_object example_lib example_root = Inl (KeyError SPAN_EVENTS_ATTRIBUTES_EVENT_ID)"
  by (simp add: to_rest_object_def example_root_def getitem_def example_inputs_event_def
      constant_defs)

lemma example_persist_events:
  "persist_events example_lib example_uuid4 [] example_root =
     (example_event_table, example_reference_span)"
  by (simp add: persist_events_def example_root_def ORMEvent_persist_def Let_def
      example_uuid4_def example_inputs_reference_def example_output_reference_def
      example_event_table_def example_reference_span_def example_lib_def)

lemma example_load_events:
  "load_events example_lib example_event_table example_reference_span = Inr example_resolved_span"
  by (simp add: load_events_def example_reference_span_def example_resolved_span_def
      example_root_def example_inputs_reference_def example_output_reference_def
      getitem_def Event_get_def ORMEvent_get_def example_event_table_def
      example_lib_def example_encode_def example_inputs_event_def example_output_event_def
      constant_defs)

theorem to_rest_object_external_event_data_uris_witness:
  "external_event_ids example_reference_span = [] \<and>
   load_events example_lib example_event_table example_reference_span = Inr example_resolved_span \<and>
   (\<exists>r. to_rest_object example_lib example_resolved_span = Inr r \<and>
        external_event_data_uris r = [''e0'', ''e1''] \<and>
        rest_span.events r = [example_inputs_event, example_output_event] \<and>
        rest_span.start_time r = ''1970-01-01T00:00:00'' \<and>
        rest_span.end_time r = ''1970-01-01T00:00:01.500000'') \<and>
   (\<exists>r. to_rest_object example_lib example_reference_span = Inr r \<and>
        external_event_data_uris r = [''e0'', ''e1''] \<and>
        rest_span.events r =
          [example_inputs_event\<lparr>event.attributes := []\<rparr>,
           example_output_event\<lparr>event.attributes := []\<rparr>]) \<and>
   to_rest_object example_lib
     (example_child\<lparr>span.events := [example_inputs_reference, example_output_event]\<rparr>) =
     Inl (KeyError SPAN_EVENTS_ATTRIBUTES_EVENT_ID)"
proof -
  let ?m = "example_child\<lparr>span.events := [example_inputs_reference, example_output_event]\<rparr>"
  have m: "external_event_ids ?m = [] \<and>
      (\<exists>e \<in> set (span.events ?m).
          map_of (event.attributes e) SPAN_EVENTS_ATTRIBUTES_EVENT_ID = None)"
    by (simp add: example_child_def example_output_event_def constant_defs)
  from to_rest_object_external_event_data_uris
    [of ?m example_lib, THEN conjunct2, THEN conjunct2, rule_format, OF m]
  have 3: "to_rest_object example_lib ?m = Inl (KeyError SPAN_EVENTS_ATTRIBUTES_EVENT_ID)" .
  have a: "external_event_ids example_reference_span = []"
    by (simp add: example_reference_span_def example_root_def)
  note b = example_load_events
  have c: "\<forall>e \<in> set (span.events example_reference_span).
      map_of (event.attributes e) SPAN_EVENTS_ATTRIBUTES_EVENT_ID \<noteq> None"
    by (simp add: example_reference_span_def example_inputs_reference_def
        example_output_reference_def)
  from to_rest_object_external_event_data_uris
    [of example_reference_span example_lib example_event_table example_resolved_span,
      THEN conjunct1, rule_format, OF conjI [OF a b]]
  obtain r1 where r1: "to_rest_object example_lib example_resolved_span = Inr r1"
    "external_event_data_uris r1 = external_event_ids example_resolved_span"
    "rest_span.events r1 = span.events example_resolved_span"
    "rest_span.start_time r1 = isoformat example_lib (span.start_time example_resolved_span)"
    "rest_span.end_time r1 = isoformat example_lib (span.end_time example_resolved_span)"
    by blast
  then have 1: "\<exists>r. to_rest_object example_lib example_resolved_span = Inr r \<and>
        external_event_data_uris r = [''e0'', ''e1''] \<and>
        rest_span.events r = [example_inputs_event, example_output_event] \<and>
        rest_span.start_time r = ''1970-01-01T00:00:00'' \<and>
        rest_span.end_time r = ''1970-01-01T00:00:01.500000''"
    by (simp add: example_resolved_span_def example_root_def example_lib_def)
  from to_rest_object_external_event_data_uris
    [of example_reference_span example_lib,
      THEN conjunct2, THEN conjunct1, rule_format, OF conjI [OF a c]]
  obtain r2 where r2: "to_rest_object example_lib example_reference_span = Inr r2"
    "map Some (external_event_data_uris r2) =
       map (\<lambda>e. map_of (event.attributes e) SPAN_EVENTS_ATTRIBUTES_EVENT_ID)
         (span.events example_reference_span)"
    "rest_span.events r2 =
       map (\<lambda>e. e\<lparr>event.attributes :=
              AList.delete SPAN_EVENTS_ATTRIBUTES_EVENT_ID (event.attributes e)\<rparr>)
         (span.events example_reference_span)"
    by blast
  from r2(2) have "map Some (external_event_data_uris r2) = map Some [''e0'', ''e1'']"
    by (simp add: example_reference_span_def example_inputs_reference_def
        example_output_reference_def)
  then have "external_event_data_uris r2 = [''e0'', ''e1'']"
    by (metis inj_Some inj_map_eq_map)
  with r2(1,3) have 2: "\<exists>r. to_rest_object example_lib example_reference_span = Inr r \<and>
        external_event_data_uris r = [''e0'', ''e1''] \<and>
        rest_span.events r =
          [example_inputs_event\<lparr>event.attributes := []\<rparr>,
           example_output_event\<lparr>event.attributes := []\<rparr>]"
    by (simp add: example_reference_span_def example_inputs_reference_def
        example_output_reference_def)
  from a b 1 2 3 show ?thesis by blast
qed

end
